theory Spec2Isabelle
  imports Main
begin

section \<open>Data model of the coil chaincode (coil-orig.go)\<close>

subsection \<open>Participant roles and coil statuses\<close>

text \<open>
  The roles are the strings a caller's certificate carries in its \<open>role\<close> attribute;
  the statuses are the integers stored in a coil record.
\<close>

definition AUTHORITY :: string where "AUTHORITY = ''buyer''"
definition MANUFACTURER :: string where "MANUFACTURER = ''manufacturer''"
definition PRIVATE_ENTITY :: string where "PRIVATE_ENTITY = ''carrier''"
definition LEASE_COMPANY :: string where "LEASE_COMPANY = ''bank''"
definition SCRAP_MERCHANT :: string where "SCRAP_MERCHANT = ''scrap_merchant''"

definition STATE_TEMPLATE :: int where "STATE_TEMPLATE = 0"
definition STATE_MANUFACTURE :: int where "STATE_MANUFACTURE = 1"
definition STATE_PRIVATE_OWNERSHIP :: int where "STATE_PRIVATE_OWNERSHIP = 2"
definition STATE_LEASED_OUT :: int where "STATE_LEASED_OUT = 3"
definition STATE_BEING_SCRAPPED :: int where "STATE_BEING_SCRAPPED = 4"

named_theorems const_defs \<open>the values of the role and status constants\<close>

declare AUTHORITY_def [const_defs]
declare MANUFACTURER_def [const_defs]
declare PRIVATE_ENTITY_def [const_defs]
declare LEASE_COMPANY_def [const_defs]
declare SCRAP_MERCHANT_def [const_defs]
declare STATE_TEMPLATE_def [const_defs]
declare STATE_MANUFACTURE_def [const_defs]
declare STATE_PRIVATE_OWNERSHIP_def [const_defs]
declare STATE_LEASED_OUT_def [const_defs]
declare STATE_BEING_SCRAPPED_def [const_defs]

subsection \<open>Records\<close>

record Coil =
  Prod :: string
  Grade :: string
  Qual :: string
  CoilID :: int
  Owner :: string
  Scrapped :: bool
  Status :: int
  Wgt :: string
  V5cID :: string
  LeaseContractID :: string

record V5C_Holder =
  V5Cs :: "string list"

text \<open>The value of \<open>var v Coil\<close>: every field at its zero value.\<close>

definition zero_Coil :: Coil where
  "zero_Coil = \<lparr>Prod = [], Grade = [], Qual = [], CoilID = 0, Owner = [], Scrapped = False,
     Status = 0, Wgt = [], V5cID = [], LeaseContractID = []\<rparr>"

subsection \<open>Bytes on the ledger and encoding/json\<close>

text \<open>
  The ledger stores byte strings. The chaincode only ever reads them back through
  \<open>json.Unmarshal\<close> into a \<open>Coil\<close> or a \<open>V5C_Holder\<close>, so a byte string is
  modelled by what it is:
  \<^item> \<open>CoilJSON v\<close>, the \<open>json.Marshal\<close> text of the coil \<open>v\<close>;
  \<^item> \<open>HolderJSON h\<close>, the \<open>json.Marshal\<close> text of the holder \<open>h\<close>;
  \<^item> \<open>ObjectJSON c h\<close>, the text of any other JSON object, given by what
    \<open>json.Unmarshal\<close> returns for it into a \<open>Coil\<close> (\<open>c\<close>) and into a \<open>V5C_Holder\<close>
    (\<open>h\<close>), with \<open>None\<close> for an error (a member of the wrong type);
  \<^item> \<open>ListJSON bs\<close>, the text \<open>[b1,...,bn]\<close> that \<open>get_coils\<close> concatenates;
  \<^item> \<open>Raw s\<close>, the bytes \<open>s\<close> themselves, for bytes that are not the text of a JSON
    object or array (a certificate, \<open>true\<close>, \<open>null\<close>, a damaged record).

  Marshalling followed by unmarshalling gives the record back; the strings of a record
  are taken to be valid UTF-8 (\<open>json.Marshal\<close> replaces other bytes by U+FFFD). A JSON
  object is accepted for either struct: members that name no field of the target are
  skipped, so a holder's text read as a coil leaves the zero coil, and a coil's text
  read as a holder leaves the empty list. The JSON value \<open>null\<close>, with or without
  white space around it, is accepted too and leaves the target as it was, at its zero
  value. Every other value that is not an object is an error.
\<close>

datatype bytes =
    CoilJSON Coil
  | HolderJSON V5C_Holder
  | ObjectJSON "Coil option" "V5C_Holder option"
  | ListJSON "bytes list"
  | Raw string

definition json_Marshal_Coil :: "Coil \<Rightarrow> bytes" where
  "json_Marshal_Coil v = CoilJSON v"

definition json_Marshal_Holder :: "V5C_Holder \<Rightarrow> bytes" where
  "json_Marshal_Holder h = HolderJSON h"

text \<open>White space of JSON: space, tab, line feed, carriage return.\<close>

definition json_space :: "char \<Rightarrow> bool" where
  "json_space c = (c = CHR '' '' \<or> c = CHR 0x09 \<or> c = CHR 0x0A \<or> c = CHR 0x0D)"

definition json_null :: "string \<Rightarrow> bool" where
  "json_null s = (dropWhile json_space (rev (dropWhile json_space s)) = rev ''null'')"

text \<open>The argument is \<open>None\<close> for Go's nil slice, which is not JSON text.\<close>

fun json_Unmarshal_Coil :: "bytes option \<Rightarrow> Coil option" where
  "json_Unmarshal_Coil None = None"
| "json_Unmarshal_Coil (Some (CoilJSON v)) = Some v"
| "json_Unmarshal_Coil (Some (HolderJSON h)) = Some zero_Coil"
| "json_Unmarshal_Coil (Some (ObjectJSON c h)) = c"
| "json_Unmarshal_Coil (Some (ListJSON bs)) = None"
| "json_Unmarshal_Coil (Some (Raw s)) = (if json_null s then Some zero_Coil else None)"

fun json_Unmarshal_Holder :: "bytes option \<Rightarrow> V5C_Holder option" where
  "json_Unmarshal_Holder None = None"
| "json_Unmarshal_Holder (Some (HolderJSON h)) = Some h"
| "json_Unmarshal_Holder (Some (CoilJSON v)) = Some \<lparr>V5Cs = []\<rparr>"
| "json_Unmarshal_Holder (Some (ObjectJSON c h)) = h"
| "json_Unmarshal_Holder (Some (ListJSON bs)) = None"
| "json_Unmarshal_Holder (Some (Raw s)) = (if json_null s then Some \<lparr>V5Cs = []\<rparr> else None)"

subsection \<open>Errors\<close>

text \<open>
  One constructor for each \<open>errors.New\<close> of the source, named after its message; the
  values that \<open>fmt.Sprintf\<close> prints into a message are not kept.
  \<open>Shim_error\<close> is an error the stub itself returns, \<open>Index_out_of_range\<close> the
  run-time panic of \<open>args[i]\<close> on a too short argument list.
\<close>

datatype error =
    Shim_error
  | Couldnt_get_attribute string
  | Error_retrieving_caller_information
  | Query_error_retrieving_caller_details
  | Error_retrieving_v5c
  | Function_doesnt_exist string
  | Unknown_function_invocation string
  | Incorrect_number_of_arguments
  | Query_error_retrieving_v5c
  | Couldnt_retrieve_ecert
  | Invalid_v5cID_provided
  | Invalid_JSON_object
  | Coil_already_exists
  | Permission_Denied
  | Error_saving_changes
  | SCRAP_VEHICLError_saving_changes
  | Unable_to_get_v5cIDs
  | Corrupt_V5C_Holder
  | Corrupt_V5C_Holder_record
  | Unable_to_put_the_state
  | Coil_not_fully_manufactured
  | Invalid_value_passed_for_new_CoilID
  | RETRIEVE_V5C_Error_retrieving_coil
  | RETRIEVE_V5C_Corrupt_coil_record
  | Error_storing_coil_record
  | Failed_to_retrieve_V5C
  | V5C_is_not_unique
  | Index_out_of_range

text \<open>A Go result \<open>([]byte, error)\<close>: either component may be nil.\<close>

type_synonym ret = "bytes option \<times> error option"

subsection \<open>The chaincode stub\<close>

text \<open>
  The stub is the shim's interface to the ledger and to the caller's certificate. Its
  world state maps keys to byte strings; a key that was never written reads as nil with
  no error. \<open>GetState\<close> and \<open>PutState\<close> may fail with an error of the ledger: the two
  predicates say for which keys they do. \<open>ReadCertAttribute\<close> fails for an attribute
  the certificate does not carry.
\<close>

record stub =
  world :: "string \<rightharpoonup> bytes"
  GetState_fails :: "string \<Rightarrow> bool"
  PutState_fails :: "string \<Rightarrow> bool"
  cert :: "string \<rightharpoonup> string"

definition GetState :: "stub \<Rightarrow> string \<Rightarrow> bytes option \<times> error option" where
  "GetState stub key =
     (if GetState_fails stub key then (None, Some Shim_error) else (world stub key, None))"

definition PutState :: "stub \<Rightarrow> string \<Rightarrow> bytes \<Rightarrow> error option \<times> stub" where
  "PutState stub key val =
     (if PutState_fails stub key then (Some Shim_error, stub)
      else (None, stub\<lparr>world := (world stub)(key \<mapsto> val)\<rparr>))"

definition ReadCertAttribute :: "stub \<Rightarrow> string \<Rightarrow> error + string" where
  "ReadCertAttribute stub name =
     (case cert stub name of None \<Rightarrow> Inl Shim_error | Some a \<Rightarrow> Inr a)"

section \<open>General functions\<close>

definition get_username :: "stub \<Rightarrow> string \<times> error option" where
  "get_username stub =
     (case ReadCertAttribute stub ''username'' of
        Inl e \<Rightarrow> ([], Some (Couldnt_get_attribute ''username''))
      | Inr username \<Rightarrow> (username, None))"

definition check_affiliation :: "stub \<Rightarrow> string \<times> error option" where
  "check_affiliation stub =
     (case ReadCertAttribute stub ''role'' of
        Inl e \<Rightarrow> ([], Some (Couldnt_get_attribute ''role''))
      | Inr affiliation \<Rightarrow> (affiliation, None))"

text \<open>
  \<open>get_caller_data\<close> overwrites the error of \<open>get_username\<close> with the one of
  \<open>check_affiliation\<close>: a caller without a \<open>username\<close> attribute is the user \<open>""\<close>.
\<close>

definition get_caller_data :: "stub \<Rightarrow> error + (string \<times> string)" where
  "get_caller_data stub =
     (let (user, err) = get_username stub;
          (affiliation, err) = check_affiliation stub
      in case err of Some e \<Rightarrow> Inl e | None \<Rightarrow> Inr (user, affiliation))"

text \<open>On an error the callers never look at the coil, so only the error is returned.\<close>

definition retrieve_v5c :: "stub \<Rightarrow> string \<Rightarrow> error + Coil" where
  "retrieve_v5c stub v5cID =
     (case GetState stub v5cID of
        (bytes, Some e) \<Rightarrow> Inl RETRIEVE_V5C_Error_retrieving_coil
      | (bytes, None) \<Rightarrow>
          (case json_Unmarshal_Coil bytes of
             None \<Rightarrow> Inl RETRIEVE_V5C_Corrupt_coil_record
           | Some v \<Rightarrow> Inr v))"

text \<open>\<open>json.Marshal\<close> cannot fail on a \<open>Coil\<close>, whose fields are strings, ints and a bool.\<close>

definition save_changes :: "stub \<Rightarrow> Coil \<Rightarrow> (bool \<times> error option) \<times> stub" where
  "save_changes stub v =
     (let bytes = json_Marshal_Coil v in
      case PutState stub (V5cID v) bytes of
        (Some e, stub') \<Rightarrow> ((False, Some Error_storing_coil_record), stub')
      | (None, stub') \<Rightarrow> ((True, None), stub'))"

section \<open>Read functions\<close>

definition ping :: "stub \<Rightarrow> ret" where
  "ping stub = (Some (Raw ''Hello, world!''), None)"

definition get_ecert :: "stub \<Rightarrow> string \<Rightarrow> ret" where
  "get_ecert stub name =
     (case GetState stub name of
        (ecert, Some e) \<Rightarrow> (None, Some Couldnt_retrieve_ecert)
      | (ecert, None) \<Rightarrow> (ecert, None))"

definition get_coil_details :: "stub \<Rightarrow> Coil \<Rightarrow> string \<Rightarrow> string \<Rightarrow> ret" where
  "get_coil_details stub v caller caller_affiliation =
     (let bytes = json_Marshal_Coil v in
      if Owner v = caller \<or> caller_affiliation = AUTHORITY then (Some bytes, None)
      else (None, Some Permission_Denied))"

text \<open>
  The loop of \<open>get_coils\<close> over the index; \<open>result\<close> holds the texts appended so far.
  The string \<open>"[" + t1 + "," + ... + tn + ","\<close> with its last comma replaced by
  \<open>"]"\<close> (or \<open>"[]"\<close> when nothing was appended) is \<open>ListJSON [t1, ..., tn]\<close>.
\<close>

fun get_coils_loop :: "stub \<Rightarrow> string \<Rightarrow> string \<Rightarrow> string list \<Rightarrow> bytes list \<Rightarrow> error + bytes list" where
  "get_coils_loop stub caller caller_affiliation [] result = Inr result"
| "get_coils_loop stub caller caller_affiliation (v5c # rest) result =
     (case retrieve_v5c stub v5c of
        Inl e \<Rightarrow> Inl Failed_to_retrieve_V5C
      | Inr v \<Rightarrow>
          (case get_coil_details stub v caller caller_affiliation of
             (temp, None) \<Rightarrow>
               get_coils_loop stub caller caller_affiliation rest
                 (result @ [case temp of Some t \<Rightarrow> t | None \<Rightarrow> Raw []])
           | (temp, Some e) \<Rightarrow> get_coils_loop stub caller caller_affiliation rest result))"

definition get_coils :: "stub \<Rightarrow> string \<Rightarrow> string \<Rightarrow> ret" where
  "get_coils stub caller caller_affiliation =
     (case GetState stub ''v5cIDs'' of
        (bytes, Some e) \<Rightarrow> (None, Some Unable_to_get_v5cIDs)
      | (bytes, None) \<Rightarrow>
          (case json_Unmarshal_Holder bytes of
             None \<Rightarrow> (None, Some Corrupt_V5C_Holder)
           | Some v5cIDs \<Rightarrow>
               (case get_coils_loop stub caller caller_affiliation (V5Cs v5cIDs) [] of
                  Inl e \<Rightarrow> (None, Some e)
                | Inr result \<Rightarrow> (Some (ListJSON result), None))))"

definition check_unique_v5c :: "stub \<Rightarrow> string \<Rightarrow> string \<Rightarrow> string \<Rightarrow> ret" where
  "check_unique_v5c stub v5c caller caller_affiliation =
     (case retrieve_v5c stub v5c of
        Inr v \<Rightarrow> (Some (Raw ''false''), Some V5C_is_not_unique)
      | Inl e \<Rightarrow> (Some (Raw ''true''), None))"

section \<open>Library functions the write path calls\<close>

subsection \<open>regexp.Match with the pattern of create_coil\<close>

text \<open>
  The pattern is \<open>^[A-z][A-z][0-9]{7}\<close>: anchored at the start only, and its class
  \<open>[A-z]\<close> is the range of code points 65 to 122. A byte above 127 belongs to a rune
  outside both classes, so matching byte by byte is exact.
\<close>

definition in_A_z :: "char \<Rightarrow> bool" where
  "in_A_z c = (65 \<le> (of_char c :: nat) \<and> (of_char c :: nat) \<le> 122)"

definition in_0_9 :: "char \<Rightarrow> bool" where
  "in_0_9 c = (48 \<le> (of_char c :: nat) \<and> (of_char c :: nat) \<le> 57)"

definition regexp_Match :: "string \<Rightarrow> bool" where
  "regexp_Match b =
     (case b of
        c1 # c2 # ds \<Rightarrow> in_A_z c1 \<and> in_A_z c2 \<and> 7 \<le> length ds \<and> list_all in_0_9 (take 7 ds)
      | _ \<Rightarrow> False)"

subsection \<open>strconv.Atoi\<close>

text \<open>
  An optional sign, then one or more decimal digits; the value has to fit Go's 64-bit
  \<open>int\<close>. \<open>None\<close> stands for the returned error.
\<close>

fun digits_value :: "int \<Rightarrow> string \<Rightarrow> int option" where
  "digits_value n [] = Some n"
| "digits_value n (ch # s) =
     (if in_0_9 ch then digits_value (n * 10 + (int (of_char ch) - 48)) s else None)"

definition strconv_Atoi :: "string \<Rightarrow> int option" where
  "strconv_Atoi s =
     (case s of
        [] \<Rightarrow> None
      | c # cs \<Rightarrow>
          (let neg = (c = CHR ''-'');
               ds = (if c = CHR ''-'' \<or> c = CHR ''+'' then cs else s)
           in if ds = [] then None
              else (case digits_value 0 ds of
                      None \<Rightarrow> None
                    | Some n \<Rightarrow>
                        (let r = (if neg then - n else n)
                         in if - (2 ^ 63) \<le> r \<and> r < 2 ^ 63 then Some r else None))))"

subsection \<open>strings.Contains\<close>

fun strings_Contains :: "string \<Rightarrow> string \<Rightarrow> bool" where
  "strings_Contains [] substr = (substr = [])"
| "strings_Contains (c # s) substr =
     (take (length substr) (c # s) = substr \<or> strings_Contains s substr)"

subsection \<open>json.Unmarshal on the text create_coil concatenates\<close>

definition quoted :: "string \<Rightarrow> string" where
  "quoted s = CHR 0x22 # s @ [CHR 0x22]"

definition coil_json :: "string \<Rightarrow> string \<Rightarrow> string" where
  "coil_json v5cID caller =
     (let v5c_ID = quoted ''v5cID'' @ '':'' @ quoted v5cID @ '', '';
          coilid = quoted ''CoilID'' @ '':0, '';
          prod = quoted ''Prod'' @ '':'' @ quoted ''UNDEFINED'' @ '', '';
          grade = quoted ''Grade'' @ '':'' @ quoted ''UNDEFINED'' @ '', '';
          qual = quoted ''Qual'' @ '':'' @ quoted ''UNDEFINED'' @ '', '';
          owner = quoted ''Owner'' @ '':'' @ quoted caller @ '', '';
          wgt = quoted ''Wgt'' @ '':'' @ quoted ''UNDEFINED'' @ '', '';
          leaseContract = quoted ''LeaseContractID'' @ '':'' @ quoted ''UNDEFINED'' @ '', '';
          status = quoted ''Status'' @ '':0, '';
          scrapped = quoted ''Scrapped'' @ '':false''
      in ''{'' @ v5c_ID @ coilid @ prod @ grade @ qual @ owner @ wgt @ leaseContract @ status
           @ scrapped @ ''}'')"

text \<open>
  A string of printable ASCII characters without the double quote and the backslash
  stands for itself between the quotes of a JSON text.
\<close>

definition json_plain :: "string \<Rightarrow> bool" where
  "json_plain s =
     list_all (\<lambda>c. 32 \<le> (of_char c :: nat) \<and> (of_char c :: nat) < 127
                    \<and> c \<noteq> CHR 0x22 \<and> c \<noteq> CHR 0x5C) s"

text \<open>
  With a plain id and a plain caller the text is a JSON object whose members name the
  fields of \<open>Coil\<close> (the decoder matches member names to the field tags without regard
  to case). For any other id or caller (an escape sequence, a quote that ends the string
  early, bytes that are not ASCII) what the decoder makes of the text is the parameter
  \<open>J\<close>, applied to the text.
\<close>

definition json_Unmarshal_coil_json :: "(string \<Rightarrow> Coil option) \<Rightarrow> string \<Rightarrow> string \<Rightarrow> Coil option" where
  "json_Unmarshal_coil_json J v5cID caller =
     (if json_plain v5cID \<and> json_plain caller
      then Some \<lparr>Prod = ''UNDEFINED'', Grade = ''UNDEFINED'', Qual = ''UNDEFINED'', CoilID = 0,
                  Owner = caller, Scrapped = False, Status = 0, Wgt = ''UNDEFINED'',
                  V5cID = v5cID, LeaseContractID = ''UNDEFINED''\<rparr>
      else J (coil_json v5cID caller))"

section \<open>Create function\<close>

text \<open>
  The pattern of \<open>regexp.Match\<close> compiles, so its error branch is never taken. The
  test \<open>v5c_ID == ""\<close> is on the member text \<open>"v5cID":"..", \<close>, not on the id.
\<close>

definition create_coil :: "(string \<Rightarrow> Coil option) \<Rightarrow> stub \<Rightarrow> string \<Rightarrow> string \<Rightarrow> string \<Rightarrow> ret \<times> stub" where
  "create_coil J stub caller caller_affiliation v5cID =
     (let v5c_ID = quoted ''v5cID'' @ '':'' @ quoted v5cID @ '', '';
          matched = regexp_Match v5cID
      in if v5c_ID = [] \<or> matched = False then ((None, Some Invalid_v5cID_provided), stub)
         else
           (case json_Unmarshal_coil_json J v5cID caller of
              None \<Rightarrow> ((None, Some Invalid_JSON_object), stub)
            | Some v \<Rightarrow>
                (case GetState stub (V5cID v) of
                   (record, err) \<Rightarrow>
                     if record \<noteq> None then ((None, Some Coil_already_exists), stub)
                     else if caller_affiliation \<noteq> AUTHORITY then ((None, Some Permission_Denied), stub)
                     else
                       (case save_changes stub v of
                          ((ok, Some e), stub1) \<Rightarrow> ((None, Some Error_saving_changes), stub1)
                        | ((ok, None), stub1) \<Rightarrow>
                            (case GetState stub1 ''v5cIDs'' of
                               (bytes, Some e) \<Rightarrow> ((None, Some Unable_to_get_v5cIDs), stub1)
                             | (bytes, None) \<Rightarrow>
                                 (case json_Unmarshal_Holder bytes of
                                    None \<Rightarrow> ((None, Some Corrupt_V5C_Holder_record), stub1)
                                  | Some v5cIDs \<Rightarrow>
                                      (let v5cIDs' = v5cIDs\<lparr>V5Cs := V5Cs v5cIDs @ [v5cID]\<rparr>;
                                           bytes' = json_Marshal_Holder v5cIDs'
                                       in case PutState stub1 ''v5cIDs'' bytes' of
                                            (Some e, stub2) \<Rightarrow> ((None, Some Unable_to_put_the_state), stub2)
                                          | (None, stub2) \<Rightarrow> ((None, None), stub2))))))))"

section \<open>Transfer functions\<close>

text \<open>
  Every transfer and update function ends the same way: it writes the changed coil and
  returns \<open>nil, nil\<close>, or the error \<open>"Error saving changes"\<close> when the write failed.
\<close>

definition write_new_state :: "stub \<Rightarrow> Coil \<Rightarrow> ret \<times> stub" where
  "write_new_state stub v =
     (case save_changes stub v of
        ((ok, Some e), stub') \<Rightarrow> ((None, Some Error_saving_changes), stub')
      | ((ok, None), stub') \<Rightarrow> ((None, None), stub'))"

definition authority_to_manufacturer :: "stub \<Rightarrow> Coil \<Rightarrow> string \<Rightarrow> string \<Rightarrow> string \<Rightarrow> string \<Rightarrow> ret \<times> stub" where
  "authority_to_manufacturer stub v caller caller_affiliation recipient_name recipient_affiliation =
     (if Status v = STATE_TEMPLATE \<and> Owner v = caller \<and> caller_affiliation = AUTHORITY
          \<and> recipient_affiliation = MANUFACTURER \<and> Scrapped v = False
      then write_new_state stub (v\<lparr>Owner := recipient_name, Status := STATE_MANUFACTURE\<rparr>)
      else ((None, Some Permission_Denied), stub))"

definition manufacturer_to_private :: "stub \<Rightarrow> Coil \<Rightarrow> string \<Rightarrow> string \<Rightarrow> string \<Rightarrow> string \<Rightarrow> ret \<times> stub" where
  "manufacturer_to_private stub v caller caller_affiliation recipient_name recipient_affiliation =
     (if Prod v = ''UNDEFINED'' \<or> Grade v = ''UNDEFINED'' \<or> Qual v = ''UNDEFINED''
          \<or> Wgt v = ''UNDEFINED'' \<or> CoilID v = 0
      then ((None, Some Coil_not_fully_manufactured), stub)
      else if Status v = STATE_MANUFACTURE \<and> Owner v = caller \<and> caller_affiliation = MANUFACTURER
          \<and> recipient_affiliation = PRIVATE_ENTITY \<and> Scrapped v = False
      then write_new_state stub (v\<lparr>Owner := recipient_name, Status := STATE_PRIVATE_OWNERSHIP\<rparr>)
      else ((None, Some Permission_Denied), stub))"

definition private_to_private :: "stub \<Rightarrow> Coil \<Rightarrow> string \<Rightarrow> string \<Rightarrow> string \<Rightarrow> string \<Rightarrow> ret \<times> stub" where
  "private_to_private stub v caller caller_affiliation recipient_name recipient_affiliation =
     (if Status v = STATE_PRIVATE_OWNERSHIP \<and> Owner v = caller \<and> caller_affiliation = PRIVATE_ENTITY
          \<and> recipient_affiliation = PRIVATE_ENTITY \<and> Scrapped v = False
      then write_new_state stub (v\<lparr>Owner := recipient_name\<rparr>)
      else ((None, Some Permission_Denied), stub))"

definition private_to_lease_company :: "stub \<Rightarrow> Coil \<Rightarrow> string \<Rightarrow> string \<Rightarrow> string \<Rightarrow> string \<Rightarrow> ret \<times> stub" where
  "private_to_lease_company stub v caller caller_affiliation recipient_name recipient_affiliation =
     (if Status v = STATE_PRIVATE_OWNERSHIP \<and> Owner v = caller \<and> caller_affiliation = PRIVATE_ENTITY
          \<and> recipient_affiliation = LEASE_COMPANY \<and> Scrapped v = False
      then write_new_state stub (v\<lparr>Owner := recipient_name\<rparr>)
      else ((None, Some Permission_Denied), stub))"

definition lease_company_to_private :: "stub \<Rightarrow> Coil \<Rightarrow> string \<Rightarrow> string \<Rightarrow> string \<Rightarrow> string \<Rightarrow> ret \<times> stub" where
  "lease_company_to_private stub v caller caller_affiliation recipient_name recipient_affiliation =
     (if Status v = STATE_PRIVATE_OWNERSHIP \<and> Owner v = caller \<and> caller_affiliation = LEASE_COMPANY
          \<and> recipient_affiliation = PRIVATE_ENTITY \<and> Scrapped v = False
      then write_new_state stub (v\<lparr>Owner := recipient_name\<rparr>)
      else ((None, Some Permission_Denied), stub))"

definition private_to_scrap_merchant :: "stub \<Rightarrow> Coil \<Rightarrow> string \<Rightarrow> string \<Rightarrow> string \<Rightarrow> string \<Rightarrow> ret \<times> stub" where
  "private_to_scrap_merchant stub v caller caller_affiliation recipient_name recipient_affiliation =
     (if Status v = STATE_PRIVATE_OWNERSHIP \<and> Owner v = caller \<and> caller_affiliation = PRIVATE_ENTITY
          \<and> recipient_affiliation = SCRAP_MERCHANT \<and> Scrapped v = False
      then write_new_state stub (v\<lparr>Owner := recipient_name, Status := STATE_BEING_SCRAPPED\<rparr>)
      else ((None, Some Permission_Denied), stub))"

section \<open>Update functions\<close>

text \<open>
  \<open>update_vin\<close> rejects the new value when \<open>strconv.Atoi\<close> returns an error or the
  string is not 15 bytes long, in one test.
\<close>

definition update_vin :: "stub \<Rightarrow> Coil \<Rightarrow> string \<Rightarrow> string \<Rightarrow> string \<Rightarrow> ret \<times> stub" where
  "update_vin stub v caller caller_affiliation new_value =
     (case strconv_Atoi new_value of
        None \<Rightarrow> ((None, Some Invalid_value_passed_for_new_CoilID), stub)
      | Some new_vin \<Rightarrow>
          if length new_value \<noteq> 15 then ((None, Some Invalid_value_passed_for_new_CoilID), stub)
          else if Status v = STATE_MANUFACTURE \<and> Owner v = caller \<and> caller_affiliation = MANUFACTURER
              \<and> CoilID v = 0 \<and> Scrapped v = False
          then write_new_state stub (v\<lparr>CoilID := new_vin\<rparr>)
          else ((None, Some Permission_Denied), stub))"

definition update_qualistration :: "stub \<Rightarrow> Coil \<Rightarrow> string \<Rightarrow> string \<Rightarrow> string \<Rightarrow> ret \<times> stub" where
  "update_qualistration stub v caller caller_affiliation new_value =
     (if Owner v = caller \<and> caller_affiliation \<noteq> SCRAP_MERCHANT \<and> Scrapped v = False
      then write_new_state stub (v\<lparr>Qual := new_value\<rparr>)
      else ((None, Some Permission_Denied), stub))"

definition update_wgt :: "stub \<Rightarrow> Coil \<Rightarrow> string \<Rightarrow> string \<Rightarrow> string \<Rightarrow> ret \<times> stub" where
  "update_wgt stub v caller caller_affiliation new_value =
     (if Owner v = caller \<and> caller_affiliation = MANUFACTURER \<and> Scrapped v = False
      then write_new_state stub (v\<lparr>Wgt := new_value\<rparr>)
      else ((None, Some Permission_Denied), stub))"

definition update_prod :: "stub \<Rightarrow> Coil \<Rightarrow> string \<Rightarrow> string \<Rightarrow> string \<Rightarrow> ret \<times> stub" where
  "update_prod stub v caller caller_affiliation new_value =
     (if Status v = STATE_MANUFACTURE \<and> Owner v = caller \<and> caller_affiliation = MANUFACTURER
          \<and> Scrapped v = False
      then write_new_state stub (v\<lparr>Prod := new_value\<rparr>)
      else ((None, Some Permission_Denied), stub))"

definition update_grade :: "stub \<Rightarrow> Coil \<Rightarrow> string \<Rightarrow> string \<Rightarrow> string \<Rightarrow> ret \<times> stub" where
  "update_grade stub v caller caller_affiliation new_value =
     (if Status v = STATE_MANUFACTURE \<and> Owner v = caller \<and> caller_affiliation = MANUFACTURER
          \<and> Scrapped v = False
      then write_new_state stub (v\<lparr>Grade := new_value\<rparr>)
      else ((None, Some Permission_Denied), stub))"

definition scrap_coil :: "stub \<Rightarrow> Coil \<Rightarrow> string \<Rightarrow> string \<Rightarrow> ret \<times> stub" where
  "scrap_coil stub v caller caller_affiliation =
     (if Status v = STATE_BEING_SCRAPPED \<and> Owner v = caller \<and> caller_affiliation = SCRAP_MERCHANT
          \<and> Scrapped v = False
      then (case save_changes stub (v\<lparr>Scrapped := True\<rparr>) of
              ((ok, Some e), stub') \<Rightarrow> ((None, Some SCRAP_VEHICLError_saving_changes), stub')
            | ((ok, None), stub') \<Rightarrow> ((None, None), stub'))
      else ((None, Some Permission_Denied), stub))"

section \<open>Router functions\<close>

text \<open>
  \<open>Invoke\<close> reads the coil at \<open>args[1]\<close> (at \<open>args[0]\<close> for \<open>scrap_coil\<close>) and hands it
  to the function named. The recipient's affiliation is not looked up: each transfer
  is called with a string literal for it.
\<close>

definition Invoke :: "(string \<Rightarrow> Coil option) \<Rightarrow> stub \<Rightarrow> string \<Rightarrow> string list \<Rightarrow> ret \<times> stub" where
  "Invoke J stub function args =
     (case get_caller_data stub of
        Inl e \<Rightarrow> ((None, Some Error_retrieving_caller_information), stub)
      | Inr (caller, caller_affiliation) \<Rightarrow>
          if function = ''create_coil'' then
            (case args of
               [] \<Rightarrow> ((None, Some Index_out_of_range), stub)
             | a0 # as \<Rightarrow> create_coil J stub caller caller_affiliation a0)
          else if function = ''ping'' then (ping stub, stub)
          else
            (let argPos = (if function = ''scrap_coil'' then 0 else 1 :: nat)
             in if length args \<le> argPos then ((None, Some Index_out_of_range), stub)
                else
                  (case retrieve_v5c stub (args ! argPos) of
                     Inl e \<Rightarrow> ((None, Some Error_retrieving_v5c), stub)
                   | Inr v \<Rightarrow>
                       if strings_Contains function ''update'' = False \<and> function \<noteq> ''scrap_coil'' then
                         (if function = ''authority_to_manufacturer''
                          then authority_to_manufacturer stub v caller caller_affiliation (args ! 0) ''manufacturer''
                          else if function = ''manufacturer_to_private''
                          then manufacturer_to_private stub v caller caller_affiliation (args ! 0) ''private''
                          else if function = ''private_to_private''
                          then private_to_private stub v caller caller_affiliation (args ! 0) ''private''
                          else if function = ''private_to_lease_company''
                          then private_to_lease_company stub v caller caller_affiliation (args ! 0) ''lease_company''
                          else if function = ''lease_company_to_private''
                          then lease_company_to_private stub v caller caller_affiliation (args ! 0) ''private''
                          else if function = ''private_to_scrap_merchant''
                          then private_to_scrap_merchant stub v caller caller_affiliation (args ! 0) ''scrap_merchant''
                          else ((None, Some (Function_doesnt_exist function)), stub))
                       else if function = ''update_prod''
                       then update_prod stub v caller caller_affiliation (args ! 0)
                       else if function = ''update_grade''
                       then update_grade stub v caller caller_affiliation (args ! 0)
                       else if function = ''update_qual''
                       then update_qualistration stub v caller caller_affiliation (args ! 0)
                       else if function = ''update_coilid''
                       then update_vin stub v caller caller_affiliation (args ! 0)
                       else if function = ''update_wgt''
                       then update_wgt stub v caller caller_affiliation (args ! 0)
                       else if function = ''scrap_coil''
                       then scrap_coil stub v caller caller_affiliation
                       else ((None, Some (Function_doesnt_exist function)), stub))))"

definition Query :: "stub \<Rightarrow> string \<Rightarrow> string list \<Rightarrow> ret" where
  "Query stub function args =
     (case get_caller_data stub of
        Inl e \<Rightarrow> (None, Some Query_error_retrieving_caller_details)
      | Inr (caller, caller_affiliation) \<Rightarrow>
          if function = ''get_coil_details'' then
            (if length args \<noteq> 1 then (None, Some Incorrect_number_of_arguments)
             else
               (case retrieve_v5c stub (args ! 0) of
                  Inl e \<Rightarrow> (None, Some Query_error_retrieving_v5c)
                | Inr v \<Rightarrow> get_coil_details stub v caller caller_affiliation))
          else if function = ''check_unique_v5c'' then
            (case args of
               [] \<Rightarrow> (None, Some Index_out_of_range)
             | a0 # as \<Rightarrow> check_unique_v5c stub a0 caller caller_affiliation)
          else if function = ''get_coils'' then get_coils stub caller caller_affiliation
          else if function = ''get_ecert'' then
            (case args of
               [] \<Rightarrow> (None, Some Index_out_of_range)
             | a0 # as \<Rightarrow> get_ecert stub a0)
          else if function = ''ping'' then ping stub
          else (None, Some (Unknown_function_invocation function)))"

section \<open>Names and example ledgers used in the statements below\<close>

text \<open>
  The function names \<open>Invoke\<close> routes to a transfer, to an update or to \<open>scrap_coil\<close>.
\<close>

definition coil_functions :: "string list" where
  "coil_functions = [''authority_to_manufacturer'', ''manufacturer_to_private'', ''private_to_private'',
     ''private_to_lease_company'', ''lease_company_to_private'', ''private_to_scrap_merchant'',
     ''update_prod'', ''update_grade'', ''update_qual'', ''update_coilid'', ''update_wgt'', ''scrap_coil'']"

text \<open>
  The id format as the specification words it, for comparison with \<open>regexp_Match\<close>:
  two letters followed by seven digits.
\<close>

definition is_letter :: "char \<Rightarrow> bool" where
  "is_letter c = ((65 \<le> (of_char c :: nat) \<and> (of_char c :: nat) \<le> 90)
                  \<or> (97 \<le> (of_char c :: nat) \<and> (of_char c :: nat) \<le> 122))"

definition two_letters_seven_digits :: "string \<Rightarrow> bool" where
  "two_letters_seven_digits s =
     (length s = 9 \<and> list_all is_letter (take 2 s) \<and> list_all in_0_9 (drop 2 s))"

text \<open>A freshly created coil, and a fully manufactured one owned by \<open>alice\<close>.\<close>

definition coil_of :: "string \<Rightarrow> string \<Rightarrow> Coil" where
  "coil_of v5cID owner = \<lparr>Prod = ''UNDEFINED'', Grade = ''UNDEFINED'', Qual = ''UNDEFINED'', CoilID = 0,
     Owner = owner, Scrapped = False, Status = 0, Wgt = ''UNDEFINED'',
     V5cID = v5cID, LeaseContractID = ''UNDEFINED''\<rparr>"

definition ex_coil :: Coil where
  "ex_coil = \<lparr>Prod = ''ACME'', Grade = ''A'', Qual = ''Q1'', CoilID = 123456789012345,
     Owner = ''alice'', Scrapped = False, Status = 1, Wgt = ''10t'', V5cID = ''AB1234567'',
     LeaseContractID = ''UNDEFINED''\<rparr>"

text \<open>A coil the scrap merchant \<open>dave\<close> has scrapped.\<close>

definition ex_scrapped :: Coil where
  "ex_scrapped = \<lparr>Prod = ''ACME'', Grade = ''A'', Qual = ''Q1'', CoilID = 123456789012345,
     Owner = ''dave'', Scrapped = True, Status = 4, Wgt = ''10t'', V5cID = ''AB1234567'',
     LeaseContractID = ''UNDEFINED''\<rparr>"

text \<open>
  A stub whose ledger never fails, over a given world state, for a caller with the
  given \<open>username\<close> and \<open>role\<close>; and one whose ledger refuses to write the index.
\<close>

definition ex_stub :: "(string \<rightharpoonup> bytes) \<Rightarrow> string \<Rightarrow> string \<Rightarrow> stub" where
  "ex_stub w user role = \<lparr>world = w, GetState_fails = (\<lambda>k. False), PutState_fails = (\<lambda>k. False),
     cert = [''username'' \<mapsto> user, ''role'' \<mapsto> role]\<rparr>"

definition ex_stub_index_refused :: stub where
  "ex_stub_index_refused = \<lparr>world = [''v5cIDs'' \<mapsto> HolderJSON \<lparr>V5Cs = []\<rparr>],
     GetState_fails = (\<lambda>k. False), PutState_fails = (\<lambda>k. k = ''v5cIDs''),
     cert = [''username'' \<mapsto> ''carol'', ''role'' \<mapsto> ''buyer'']\<rparr>"

definition ex_index_world :: "string \<rightharpoonup> bytes" where
  "ex_index_world = [''v5cIDs'' \<mapsto> HolderJSON \<lparr>V5Cs = [''AA0000001'', ''AA0000002'', ''AA0000003'']\<rparr>,
     ''AA0000001'' \<mapsto> CoilJSON (coil_of ''AA0000001'' ''alice''),
     ''AA0000002'' \<mapsto> CoilJSON (coil_of ''AA0000002'' ''bob''),
     ''AA0000003'' \<mapsto> CoilJSON (coil_of ''AA0000003'' ''alice'')]"

text \<open>
  A ledger whose index names \<open>ZZ9999999\<close>, under which nothing is stored, after the
  coil \<open>AA0000001\<close> of \<open>alice\<close>.
\<close>

definition ex_dangling_world :: "string \<rightharpoonup> bytes" where
  "ex_dangling_world = [''v5cIDs'' \<mapsto> HolderJSON \<lparr>V5Cs = [''AA0000001'', ''ZZ9999999'']\<rparr>,
     ''AA0000001'' \<mapsto> CoilJSON (coil_of ''AA0000001'' ''alice'')]"

text \<open>
  An id that starts with two backslashes (both in the class \<open>[A-z]\<close>), and the id the
  JSON decoder reads from it between quotes: the escape sequence stands for one
  backslash.
\<close>

definition ex_escaped_id :: string where
  "ex_escaped_id = CHR 0x5C # CHR 0x5C # ''1234567''"

definition ex_decoded_id :: string where
  "ex_decoded_id = CHR 0x5C # ''1234567''"

section \<open>Basic facts\<close>

lemma write_new_state_ok:
  "\<not> PutState_fails stub (V5cID v) \<Longrightarrow>
   write_new_state stub v = ((None, None), stub\<lparr>world := (world stub)(V5cID v \<mapsto> CoilJSON v)\<rparr>)"
  by (simp add: write_new_state_def save_changes_def PutState_def json_Marshal_Coil_def)

lemma write_new_state_fails:
  "PutState_fails stub (V5cID v) \<Longrightarrow>
   write_new_state stub v = ((None, Some Error_saving_changes), stub)"
  by (simp add: write_new_state_def save_changes_def PutState_def)

lemma retrieve_v5c_Inr:
  "retrieve_v5c stub k = Inr v \<longleftrightarrow>
   \<not> GetState_fails stub k \<and> json_Unmarshal_Coil (world stub k) = Some v"
  by (auto simp: retrieve_v5c_def GetState_def split: option.splits)

lemma get_caller_data_ex_stub:
  "get_caller_data (ex_stub w user role) = Inr (user, role)"
  by (simp add: get_caller_data_def get_username_def check_affiliation_def ReadCertAttribute_def
      ex_stub_def)

subsection \<open>What Invoke calls\<close>

lemma Invoke_no_caller:
  "get_caller_data stub = Inl e \<Longrightarrow>
   Invoke J stub function args = ((None, Some Error_retrieving_caller_information), stub)"
  by (simp add: Invoke_def)

lemma Invoke_transfer:
  assumes "get_caller_data stub = Inr (c, a)" "1 < length args" "retrieve_v5c stub (args ! 1) = Inr v"
  shows "Invoke J stub ''authority_to_manufacturer'' args
           = authority_to_manufacturer stub v c a (args ! 0) ''manufacturer''"
    and "Invoke J stub ''manufacturer_to_private'' args
           = manufacturer_to_private stub v c a (args ! 0) ''private''"
    and "Invoke J stub ''private_to_private'' args
           = private_to_private stub v c a (args ! 0) ''private''"
    and "Invoke J stub ''private_to_lease_company'' args
           = private_to_lease_company stub v c a (args ! 0) ''lease_company''"
    and "Invoke J stub ''lease_company_to_private'' args
           = lease_company_to_private stub v c a (args ! 0) ''private''"
    and "Invoke J stub ''private_to_scrap_merchant'' args
           = private_to_scrap_merchant stub v c a (args ! 0) ''scrap_merchant''"
  using assms by (simp_all add: Invoke_def)

lemma Invoke_update:
  assumes "get_caller_data stub = Inr (c, a)" "1 < length args" "retrieve_v5c stub (args ! 1) = Inr v"
  shows "Invoke J stub ''update_prod'' args = update_prod stub v c a (args ! 0)"
    and "Invoke J stub ''update_grade'' args = update_grade stub v c a (args ! 0)"
    and "Invoke J stub ''update_qual'' args = update_qualistration stub v c a (args ! 0)"
    and "Invoke J stub ''update_coilid'' args = update_vin stub v c a (args ! 0)"
    and "Invoke J stub ''update_wgt'' args = update_wgt stub v c a (args ! 0)"
  using assms by (simp_all add: Invoke_def)

lemma Invoke_scrap_coil:
  assumes "get_caller_data stub = Inr (c, a)" "0 < length args" "retrieve_v5c stub (args ! 0) = Inr v"
  shows "Invoke J stub ''scrap_coil'' args = scrap_coil stub v c a"
  using assms by (simp add: Invoke_def)

lemma coil_functions_cases:
  assumes "function \<in> set coil_functions"
  shows "function = ''authority_to_manufacturer'' \<or> function = ''manufacturer_to_private''
      \<or> function = ''private_to_private'' \<or> function = ''private_to_lease_company''
      \<or> function = ''lease_company_to_private'' \<or> function = ''private_to_scrap_merchant''
      \<or> function = ''update_prod'' \<or> function = ''update_grade'' \<or> function = ''update_qual''
      \<or> function = ''update_coilid'' \<or> function = ''update_wgt'' \<or> function = ''scrap_coil''"
  using assms by (simp only: coil_functions_def list.set insert_iff empty_iff simp_thms)

lemma Invoke_no_coil:
  assumes "get_caller_data stub = Inr (c, a)" "function \<in> set coil_functions"
    and "(if function = ''scrap_coil'' then 0 else 1) < length args"
    and "retrieve_v5c stub (args ! (if function = ''scrap_coil'' then 0 else 1)) = Inl e"
  shows "Invoke J stub function args = ((None, Some Error_retrieving_v5c), stub)"
  using coil_functions_cases [OF assms(2)] assms(1,3,4)
  by (elim disjE) (simp_all add: Invoke_def)

section \<open>The uniqueness check\<close>

text \<open>
  C10. When bytes are stored at an id but do not deserialize as a coil record,
  \<open>check_unique_v5c\<close> answers \<open>true\<close> with no error. It answers the same when nothing
  is stored at the id and when the ledger fails to read it: every failure of
  \<open>retrieve_v5c\<close> counts as "unique", so a damaged record cannot be told from a missing
  one.
\<close>

theorem check_unique_v5c_unreadable:
  "(world stub v5c = Some b \<and> json_Unmarshal_Coil (Some b) = None
      \<longrightarrow> check_unique_v5c stub v5c caller caller_affiliation = (Some (Raw ''true''), None))
   \<and> (world stub v5c = None
      \<longrightarrow> check_unique_v5c stub v5c caller caller_affiliation = (Some (Raw ''true''), None))
   \<and> (GetState_fails stub v5c
      \<longrightarrow> check_unique_v5c stub v5c caller caller_affiliation = (Some (Raw ''true''), None))"
  by (simp add: check_unique_v5c_def retrieve_v5c_def GetState_def)

theorem check_unique_v5c_unreadable_witness:
  "world (ex_stub [''AB1234567'' \<mapsto> Raw ''{damaged''] ''alice'' ''buyer'') ''AB1234567''
     = Some (Raw ''{damaged'')
   \<and> json_Unmarshal_Coil (Some (Raw ''{damaged'')) = None
   \<and> check_unique_v5c (ex_stub [''AB1234567'' \<mapsto> Raw ''{damaged''] ''alice'' ''buyer'')
        ''AB1234567'' ''alice'' ''buyer''
       = (Some (Raw ''true''), None)"
  using check_unique_v5c_unreadable
    [of "ex_stub [''AB1234567'' \<mapsto> Raw ''{damaged''] ''alice'' ''buyer''" "''AB1234567''"
        "Raw ''{damaged''" "''alice''" "''buyer''"]
  by (simp add: ex_stub_def json_null_def json_space_def)

text \<open>
  C4, as the code has it. \<open>check_unique_v5c\<close> answers \<open>true\<close> with no error when no
  record is stored at the id. When a coil record is stored there (and the ledger reads
  it), it answers \<open>false\<close> together with the error "V5C is not unique": existence is
  reported as an error, not as a plain value.
\<close>

theorem check_unique_v5c_result:
  "(world stub v5c = None
      \<longrightarrow> check_unique_v5c stub v5c caller caller_affiliation = (Some (Raw ''true''), None))
   \<and> (\<not> GetState_fails stub v5c \<and> world stub v5c = Some (CoilJSON v)
      \<longrightarrow> check_unique_v5c stub v5c caller caller_affiliation
            = (Some (Raw ''false''), Some V5C_is_not_unique))"
  by (simp add: check_unique_v5c_def retrieve_v5c_def GetState_def)

theorem check_unique_v5c_result_witness:
  "world (ex_stub [''AB1234567'' \<mapsto> CoilJSON ex_coil] ''alice'' ''buyer'') ''AB1234568'' = None
   \<and> check_unique_v5c (ex_stub [''AB1234567'' \<mapsto> CoilJSON ex_coil] ''alice'' ''buyer'')
        ''AB1234568'' ''alice'' ''buyer'' = (Some (Raw ''true''), None)
   \<and> world (ex_stub [''AB1234567'' \<mapsto> CoilJSON ex_coil] ''alice'' ''buyer'') ''AB1234567''
       = Some (CoilJSON ex_coil)
   \<and> check_unique_v5c (ex_stub [''AB1234567'' \<mapsto> CoilJSON ex_coil] ''alice'' ''buyer'')
        ''AB1234567'' ''alice'' ''buyer'' = (Some (Raw ''false''), Some V5C_is_not_unique)"
  using check_unique_v5c_result
    [of "ex_stub [''AB1234567'' \<mapsto> CoilJSON ex_coil] ''alice'' ''buyer''" "''AB1234568''"
        "''alice''" "''buyer''" ex_coil]
    check_unique_v5c_result
    [of "ex_stub [''AB1234567'' \<mapsto> CoilJSON ex_coil] ''alice'' ''buyer''" "''AB1234567''"
        "''alice''" "''buyer''" ex_coil]
  by (simp add: ex_stub_def)

text \<open>
  C4 as stated fails: with a record stored at \<open>AB1234567\<close> the check does not complete
  without error, it returns the error "V5C is not unique".
\<close>

theorem check_unique_v5c_existing_counterexample:
  "world (ex_stub [''AB1234567'' \<mapsto> CoilJSON ex_coil] ''alice'' ''buyer'') ''AB1234567''
     = Some (CoilJSON ex_coil)
   \<and> snd (check_unique_v5c (ex_stub [''AB1234567'' \<mapsto> CoilJSON ex_coil] ''alice'' ''buyer'')
        ''AB1234567'' ''alice'' ''buyer'')
       = Some V5C_is_not_unique"
  by (simp add: ex_stub_def check_unique_v5c_def retrieve_v5c_def GetState_def)

section \<open>Transfer from the manufacturer\<close>

text \<open>
  C6. Whenever one of producer, grade, quality, weight is \<open>UNDEFINED\<close> or the serial
  number is 0, \<open>manufacturer_to_private\<close> fails with "Coil not fully manufactured",
  not with a permission error, whatever the status, the owner, the caller, the roles
  and the scrapped flag are, and the stub is returned as it was. The same holds when
  the function is reached through \<open>Invoke\<close>.
\<close>

theorem manufacturer_to_private_not_fully_manufactured:
  assumes "Prod v = ''UNDEFINED'' \<or> Grade v = ''UNDEFINED'' \<or> Qual v = ''UNDEFINED''
             \<or> Wgt v = ''UNDEFINED'' \<or> CoilID v = 0"
  shows "manufacturer_to_private stub v caller caller_affiliation recipient_name recipient_affiliation
           = ((None, Some Coil_not_fully_manufactured), stub)
       \<and> (get_caller_data stub = Inr (caller, caller_affiliation) \<and> 1 < length args
             \<and> retrieve_v5c stub (args ! 1) = Inr v
           \<longrightarrow> Invoke J stub ''manufacturer_to_private'' args
                 = ((None, Some Coil_not_fully_manufactured), stub))"
  using assms by (auto simp: Invoke_transfer manufacturer_to_private_def)

theorem manufacturer_to_private_not_fully_manufactured_witness:
  "Grade (ex_coil\<lparr>Grade := ''UNDEFINED''\<rparr>) = ''UNDEFINED''
   \<and> manufacturer_to_private
        (ex_stub [''AB1234567'' \<mapsto> CoilJSON (ex_coil\<lparr>Grade := ''UNDEFINED''\<rparr>)] ''alice'' ''manufacturer'')
        (ex_coil\<lparr>Grade := ''UNDEFINED''\<rparr>) ''alice'' MANUFACTURER ''bob'' PRIVATE_ENTITY
       = ((None, Some Coil_not_fully_manufactured),
          ex_stub [''AB1234567'' \<mapsto> CoilJSON (ex_coil\<lparr>Grade := ''UNDEFINED''\<rparr>)] ''alice'' ''manufacturer'')
   \<and> Invoke (\<lambda>t. None)
        (ex_stub [''AB1234567'' \<mapsto> CoilJSON (ex_coil\<lparr>Grade := ''UNDEFINED''\<rparr>)] ''alice'' ''manufacturer'')
        ''manufacturer_to_private'' [''bob'', ''AB1234567'']
       = ((None, Some Coil_not_fully_manufactured),
          ex_stub [''AB1234567'' \<mapsto> CoilJSON (ex_coil\<lparr>Grade := ''UNDEFINED''\<rparr>)] ''alice'' ''manufacturer'')"
proof -
  let ?v = "ex_coil\<lparr>Grade := ''UNDEFINED''\<rparr>"
  let ?s = "ex_stub [''AB1234567'' \<mapsto> CoilJSON ?v] ''alice'' ''manufacturer''"
  have u: "Prod ?v = ''UNDEFINED'' \<or> Grade ?v = ''UNDEFINED'' \<or> Qual ?v = ''UNDEFINED''
             \<or> Wgt ?v = ''UNDEFINED'' \<or> CoilID ?v = 0"
    by simp
  have r: "retrieve_v5c ?s ([''bob'', ''AB1234567''] ! 1) = Inr ?v"
    by (simp add: retrieve_v5c_Inr ex_stub_def)
  show ?thesis
    using manufacturer_to_private_not_fully_manufactured
        [OF u, of ?s "''alice''" MANUFACTURER "''bob''" PRIVATE_ENTITY "[''bob'', ''AB1234567'']" "\<lambda>t. None"]
      manufacturer_to_private_not_fully_manufactured
        [OF u, of ?s "''alice''" "''manufacturer''" "''bob''" PRIVATE_ENTITY "[''bob'', ''AB1234567'']" "\<lambda>t. None"]
      r
    by (simp add: get_caller_data_ex_stub)
qed

section \<open>Updates\<close>

text \<open>
  C7. \<open>update_vin\<close> fails with "Invalid value passed for new CoilID" and writes nothing
  when the new value is not exactly 15 characters long or \<open>strconv.Atoi\<close> rejects it.
  Otherwise (the ledger accepting the write) it succeeds exactly when the status is
  Manufacture, the serial number is 0, the caller is the owner with the role
  \<open>manufacturer\<close> and the coil is not scrapped, and then stores the coil with the parsed
  number as its serial number; in every other case it fails with a permission error and
  writes nothing. So a serial number that is not 0, or a coil outside Manufacture, is
  never changed: the number leaves 0 at most once.
\<close>

theorem update_vin_result:
  "(strconv_Atoi new_value = None \<or> length new_value \<noteq> 15
      \<longrightarrow> update_vin stub v caller caller_affiliation new_value
            = ((None, Some Invalid_value_passed_for_new_CoilID), stub))
   \<and> (strconv_Atoi new_value = Some n \<and> length new_value = 15 \<and> \<not> PutState_fails stub (V5cID v)
      \<longrightarrow> update_vin stub v caller caller_affiliation new_value
            = (if Status v = 1 \<and> CoilID v = 0 \<and> Owner v = caller
                  \<and> caller_affiliation = ''manufacturer'' \<and> \<not> Scrapped v
               then ((None, None),
                     stub\<lparr>world := (world stub)(V5cID v \<mapsto> CoilJSON (v\<lparr>CoilID := n\<rparr>))\<rparr>)
               else ((None, Some Permission_Denied), stub)))
   \<and> (CoilID v \<noteq> 0 \<or> Status v \<noteq> 1
      \<longrightarrow> snd (fst (update_vin stub v caller caller_affiliation new_value)) \<noteq> None
          \<and> snd (update_vin stub v caller caller_affiliation new_value) = stub)"
  by (auto simp: update_vin_def write_new_state_ok const_defs split: option.splits)

theorem update_vin_result_witness:
  "strconv_Atoi ''12345'' = Some 12345 \<and> length ''12345'' \<noteq> 15
   \<and> update_vin (ex_stub [''AB1234567'' \<mapsto> CoilJSON (ex_coil\<lparr>CoilID := 0\<rparr>)] ''alice'' ''manufacturer'')
        (ex_coil\<lparr>CoilID := 0\<rparr>) ''alice'' ''manufacturer'' ''12345''
       = ((None, Some Invalid_value_passed_for_new_CoilID),
          ex_stub [''AB1234567'' \<mapsto> CoilJSON (ex_coil\<lparr>CoilID := 0\<rparr>)] ''alice'' ''manufacturer'')
   \<and> strconv_Atoi ''123456789012345'' = Some 123456789012345 \<and> length ''123456789012345'' = 15
   \<and> fst (update_vin (ex_stub [''AB1234567'' \<mapsto> CoilJSON (ex_coil\<lparr>CoilID := 0\<rparr>)] ''alice'' ''manufacturer'')
        (ex_coil\<lparr>CoilID := 0\<rparr>) ''alice'' ''manufacturer'' ''123456789012345'') = (None, None)
   \<and> world (snd (update_vin (ex_stub [''AB1234567'' \<mapsto> CoilJSON (ex_coil\<lparr>CoilID := 0\<rparr>)] ''alice'' ''manufacturer'')
        (ex_coil\<lparr>CoilID := 0\<rparr>) ''alice'' ''manufacturer'' ''123456789012345'')) ''AB1234567''
       = Some (CoilJSON ex_coil)
   \<and> CoilID ex_coil \<noteq> 0
   \<and> snd (fst (update_vin (ex_stub [''AB1234567'' \<mapsto> CoilJSON ex_coil] ''alice'' ''manufacturer'')
        ex_coil ''alice'' ''manufacturer'' ''123456789012345'')) \<noteq> None"
  using update_vin_result
      [of "''12345''" "ex_stub [''AB1234567'' \<mapsto> CoilJSON (ex_coil\<lparr>CoilID := 0\<rparr>)] ''alice'' ''manufacturer''"
          "ex_coil\<lparr>CoilID := 0\<rparr>" "''alice''" "''manufacturer''" 12345]
    update_vin_result
      [of "''123456789012345''" "ex_stub [''AB1234567'' \<mapsto> CoilJSON (ex_coil\<lparr>CoilID := 0\<rparr>)] ''alice'' ''manufacturer''"
          "ex_coil\<lparr>CoilID := 0\<rparr>" "''alice''" "''manufacturer''" 123456789012345]
    update_vin_result
      [of "''123456789012345''" "ex_stub [''AB1234567'' \<mapsto> CoilJSON ex_coil] ''alice'' ''manufacturer''"
          ex_coil "''alice''" "''manufacturer''" 123456789012345]
  by (simp add: ex_stub_def ex_coil_def strconv_Atoi_def in_0_9_def)

text \<open>
  C3, as the code has it. With the ledger accepting the write, \<open>update_prod\<close> and
  \<open>update_grade\<close> succeed exactly when the status is Manufacture, the caller is the owner
  with the role \<open>manufacturer\<close> and the coil is not scrapped. \<open>update_wgt\<close> succeeds
  exactly when the caller is the owner with the role \<open>manufacturer\<close> and the coil is not
  scrapped, in any status. A successful update stores the coil with the named field
  set to the new value and nothing else changed; every other call fails with a
  permission error and writes nothing.
\<close>

theorem update_prod_grade_wgt_result:
  assumes "\<not> PutState_fails stub (V5cID v)"
  shows "update_prod stub v caller caller_affiliation new_value
           = (if Status v = 1 \<and> Owner v = caller \<and> caller_affiliation = ''manufacturer'' \<and> \<not> Scrapped v
              then ((None, None),
                    stub\<lparr>world := (world stub)(V5cID v \<mapsto> CoilJSON (v\<lparr>Prod := new_value\<rparr>))\<rparr>)
              else ((None, Some Permission_Denied), stub))
       \<and> update_grade stub v caller caller_affiliation new_value
           = (if Status v = 1 \<and> Owner v = caller \<and> caller_affiliation = ''manufacturer'' \<and> \<not> Scrapped v
              then ((None, None),
                    stub\<lparr>world := (world stub)(V5cID v \<mapsto> CoilJSON (v\<lparr>Grade := new_value\<rparr>))\<rparr>)
              else ((None, Some Permission_Denied), stub))
       \<and> update_wgt stub v caller caller_affiliation new_value
           = (if Owner v = caller \<and> caller_affiliation = ''manufacturer'' \<and> \<not> Scrapped v
              then ((None, None),
                    stub\<lparr>world := (world stub)(V5cID v \<mapsto> CoilJSON (v\<lparr>Wgt := new_value\<rparr>))\<rparr>)
              else ((None, Some Permission_Denied), stub))"
  using assms
  by (simp add: update_prod_def update_grade_def update_wgt_def write_new_state_ok const_defs)

theorem update_prod_grade_wgt_result_witness:
  "\<not> PutState_fails (ex_stub [''AB1234567'' \<mapsto> CoilJSON ex_coil] ''alice'' ''manufacturer'') (V5cID ex_coil)
   \<and> fst (update_prod (ex_stub [''AB1234567'' \<mapsto> CoilJSON ex_coil] ''alice'' ''manufacturer'')
        ex_coil ''alice'' ''manufacturer'' ''Steelworks'') = (None, None)
   \<and> world (snd (update_prod (ex_stub [''AB1234567'' \<mapsto> CoilJSON ex_coil] ''alice'' ''manufacturer'')
        ex_coil ''alice'' ''manufacturer'' ''Steelworks'')) ''AB1234567''
       = Some (CoilJSON (ex_coil\<lparr>Prod := ''Steelworks''\<rparr>))
   \<and> update_grade (ex_stub [''AB1234567'' \<mapsto> CoilJSON ex_coil] ''alice'' ''manufacturer'')
        ex_coil ''bob'' ''manufacturer'' ''B''
       = ((None, Some Permission_Denied), ex_stub [''AB1234567'' \<mapsto> CoilJSON ex_coil] ''alice'' ''manufacturer'')
   \<and> update_wgt (ex_stub [''AB1234567'' \<mapsto> CoilJSON ex_coil] ''alice'' ''manufacturer'')
        ex_coil ''alice'' ''buyer'' ''12t''
       = ((None, Some Permission_Denied), ex_stub [''AB1234567'' \<mapsto> CoilJSON ex_coil] ''alice'' ''manufacturer'')"
proof -
  let ?s = "ex_stub [''AB1234567'' \<mapsto> CoilJSON ex_coil] ''alice'' ''manufacturer''"
  have p: "\<not> PutState_fails ?s (V5cID ex_coil)" by (simp add: ex_stub_def)
  show ?thesis
    using p update_prod_grade_wgt_result [OF p, of "''alice''" "''manufacturer''" "''Steelworks''"]
      update_prod_grade_wgt_result [OF p, of "''bob''" "''manufacturer''" "''B''"]
      update_prod_grade_wgt_result [OF p, of "''alice''" "''buyer''" "''12t''"]
    by (simp add: ex_stub_def ex_coil_def)
qed

text \<open>
  C3 as stated fails for the weight: a manufacturer who owns a coil in private
  ownership (status 2) updates its weight, and the changed record is stored.
\<close>

theorem update_wgt_status_counterexample:
  "Status (ex_coil\<lparr>Status := 2\<rparr>) = STATE_PRIVATE_OWNERSHIP
   \<and> fst (update_wgt (ex_stub [''AB1234567'' \<mapsto> CoilJSON (ex_coil\<lparr>Status := 2\<rparr>)] ''alice'' ''manufacturer'')
            (ex_coil\<lparr>Status := 2\<rparr>) ''alice'' ''manufacturer'' ''12t'') = (None, None)
   \<and> world (snd (update_wgt (ex_stub [''AB1234567'' \<mapsto> CoilJSON (ex_coil\<lparr>Status := 2\<rparr>)] ''alice'' ''manufacturer'')
            (ex_coil\<lparr>Status := 2\<rparr>) ''alice'' ''manufacturer'' ''12t'')) ''AB1234567''
       = Some (CoilJSON (ex_coil\<lparr>Status := 2, Wgt := ''12t''\<rparr>))"
  by (simp add: update_wgt_def write_new_state_def save_changes_def PutState_def json_Marshal_Coil_def
      ex_stub_def ex_coil_def const_defs)

section \<open>Scrapped coils\<close>

lemma scrapped_transfers:
  assumes "Scrapped v"
  shows "authority_to_manufacturer stub v c a rn ra = ((None, Some Permission_Denied), stub)"
    and "manufacturer_to_private stub v c a rn ra
           = ((None, Some (if Prod v = ''UNDEFINED'' \<or> Grade v = ''UNDEFINED'' \<or> Qual v = ''UNDEFINED''
                               \<or> Wgt v = ''UNDEFINED'' \<or> CoilID v = 0
                            then Coil_not_fully_manufactured else Permission_Denied)), stub)"
    and "private_to_private stub v c a rn ra = ((None, Some Permission_Denied), stub)"
    and "private_to_lease_company stub v c a rn ra = ((None, Some Permission_Denied), stub)"
    and "lease_company_to_private stub v c a rn ra = ((None, Some Permission_Denied), stub)"
    and "private_to_scrap_merchant stub v c a rn ra = ((None, Some Permission_Denied), stub)"
  using assms
  by (simp_all add: authority_to_manufacturer_def manufacturer_to_private_def private_to_private_def
      private_to_lease_company_def lease_company_to_private_def private_to_scrap_merchant_def)

lemma scrapped_updates:
  assumes "Scrapped v"
  shows "update_prod stub v c a nv = ((None, Some Permission_Denied), stub)"
    and "update_grade stub v c a nv = ((None, Some Permission_Denied), stub)"
    and "update_qualistration stub v c a nv = ((None, Some Permission_Denied), stub)"
    and "update_wgt stub v c a nv = ((None, Some Permission_Denied), stub)"
    and "update_vin stub v c a nv
           = ((None, Some (if strconv_Atoi nv = None \<or> length nv \<noteq> 15
                            then Invalid_value_passed_for_new_CoilID else Permission_Denied)), stub)"
    and "scrap_coil stub v c a = ((None, Some Permission_Denied), stub)"
  using assms
  by (auto simp: update_prod_def update_grade_def update_qualistration_def update_wgt_def
      update_vin_def scrap_coil_def split: option.splits)

lemma Invoke_scrapped:
  assumes f: "function \<in> set coil_functions"
    and len: "(if function = ''scrap_coil'' then 0 else 1) < length args"
    and w: "world stub (args ! (if function = ''scrap_coil'' then 0 else 1)) = Some (CoilJSON v)"
    and s: "Scrapped v"
  shows "snd (Invoke J stub function args) = stub \<and> fst (fst (Invoke J stub function args)) = None
         \<and> snd (fst (Invoke J stub function args))
             \<in> Some ` {Permission_Denied, Coil_not_fully_manufactured,
                        Invalid_value_passed_for_new_CoilID, Error_retrieving_v5c,
                        Error_retrieving_caller_information}"
proof (cases "get_caller_data stub")
  case (Inl e)
  then show ?thesis by (simp add: Invoke_no_caller)
next
  case (Inr p)
  obtain c a where p: "get_caller_data stub = Inr (c, a)" using Inr by (cases p) simp
  show ?thesis
  proof (cases "retrieve_v5c stub (args ! (if function = ''scrap_coil'' then 0 else 1))")
    case (Inl e)
    from Invoke_no_coil [OF p f len Inl] show ?thesis by simp
  next
    case (Inr v')
    with w have v': "v' = v" by (simp add: retrieve_v5c_Inr)
    note tr = Invoke_transfer [OF p] Invoke_update [OF p] Invoke_scrap_coil [OF p]
    from coil_functions_cases [OF f] len Inr v' show ?thesis
      by (elim disjE) (simp_all add: tr scrapped_transfers [OF s] scrapped_updates [OF s])
  qed
qed

text \<open>
  C5. Once a coil is scrapped, every transfer, every update and \<open>scrap_coil\<close> fails
  for every caller, role, recipient and new value, and returns the stub as it was, so
  no field of the stored record changes and the coil stays scrapped. The error is the
  permission error, except where a function tests its input first:
  \<open>manufacturer_to_private\<close> answers "Coil not fully manufactured" for an incomplete
  coil and \<open>update_vin\<close> answers "Invalid value passed for new CoilID" for a malformed
  number. Through \<open>Invoke\<close>, a call of any of these functions on the id of a scrapped
  coil returns an error and leaves the ledger as it was.
\<close>

theorem scrapped_coil_is_frozen:
  assumes "Scrapped v"
  shows "authority_to_manufacturer stub v c a rn ra = ((None, Some Permission_Denied), stub)
       \<and> manufacturer_to_private stub v c a rn ra
           = ((None, Some (if Prod v = ''UNDEFINED'' \<or> Grade v = ''UNDEFINED'' \<or> Qual v = ''UNDEFINED''
                               \<or> Wgt v = ''UNDEFINED'' \<or> CoilID v = 0
                            then Coil_not_fully_manufactured else Permission_Denied)), stub)
       \<and> private_to_private stub v c a rn ra = ((None, Some Permission_Denied), stub)
       \<and> private_to_lease_company stub v c a rn ra = ((None, Some Permission_Denied), stub)
       \<and> lease_company_to_private stub v c a rn ra = ((None, Some Permission_Denied), stub)
       \<and> private_to_scrap_merchant stub v c a rn ra = ((None, Some Permission_Denied), stub)
       \<and> update_prod stub v c a nv = ((None, Some Permission_Denied), stub)
       \<and> update_grade stub v c a nv = ((None, Some Permission_Denied), stub)
       \<and> update_qualistration stub v c a nv = ((None, Some Permission_Denied), stub)
       \<and> update_wgt stub v c a nv = ((None, Some Permission_Denied), stub)
       \<and> update_vin stub v c a nv
           = ((None, Some (if strconv_Atoi nv = None \<or> length nv \<noteq> 15
                            then Invalid_value_passed_for_new_CoilID else Permission_Denied)), stub)
       \<and> scrap_coil stub v c a = ((None, Some Permission_Denied), stub)
       \<and> (function \<in> set coil_functions
             \<and> (if function = ''scrap_coil'' then 0 else 1) < length args
             \<and> world stub (args ! (if function = ''scrap_coil'' then 0 else 1)) = Some (CoilJSON v)
           \<longrightarrow> snd (Invoke J stub function args) = stub
               \<and> fst (fst (Invoke J stub function args)) = None
               \<and> snd (fst (Invoke J stub function args))
                   \<in> Some ` {Permission_Denied, Coil_not_fully_manufactured,
                              Invalid_value_passed_for_new_CoilID, Error_retrieving_v5c,
                              Error_retrieving_caller_information})"
  using Invoke_scrapped [of "function" args stub v J] assms
  by (intro conjI impI) (simp_all add: scrapped_transfers scrapped_updates)

theorem scrapped_coil_is_frozen_witness:
  "Scrapped ex_scrapped
   \<and> scrap_coil (ex_stub [''AB1234567'' \<mapsto> CoilJSON ex_scrapped] ''dave'' ''scrap_merchant'')
        ex_scrapped ''dave'' ''scrap_merchant''
       = ((None, Some Permission_Denied),
          ex_stub [''AB1234567'' \<mapsto> CoilJSON ex_scrapped] ''dave'' ''scrap_merchant'')
   \<and> update_qualistration (ex_stub [''AB1234567'' \<mapsto> CoilJSON ex_scrapped] ''dave'' ''scrap_merchant'')
        ex_scrapped ''dave'' ''buyer'' ''Q2''
       = ((None, Some Permission_Denied),
          ex_stub [''AB1234567'' \<mapsto> CoilJSON ex_scrapped] ''dave'' ''scrap_merchant'')
   \<and> ''update_qual'' \<in> set coil_functions
   \<and> world (ex_stub [''AB1234567'' \<mapsto> CoilJSON ex_scrapped] ''dave'' ''scrap_merchant'')
        ([''Q2'', ''AB1234567''] ! 1) = Some (CoilJSON ex_scrapped)
   \<and> snd (Invoke (\<lambda>t. None) (ex_stub [''AB1234567'' \<mapsto> CoilJSON ex_scrapped] ''dave'' ''scrap_merchant'')
        ''update_qual'' [''Q2'', ''AB1234567''])
       = ex_stub [''AB1234567'' \<mapsto> CoilJSON ex_scrapped] ''dave'' ''scrap_merchant''"
proof -
  let ?s = "ex_stub [''AB1234567'' \<mapsto> CoilJSON ex_scrapped] ''dave'' ''scrap_merchant''"
  have sc: "Scrapped ex_scrapped" by (simp add: ex_scrapped_def)
  have f: "''update_qual'' \<in> set coil_functions" by (simp add: coil_functions_def)
  have w: "world ?s ([''Q2'', ''AB1234567''] ! 1) = Some (CoilJSON ex_scrapped)"
    by (simp add: ex_stub_def)
  show ?thesis
    using sc f w
      scrapped_coil_is_frozen [OF sc, of ?s "''dave''" "''scrap_merchant''" "''bob''" "''private''"
        "''Q2''" "''update_qual''" "[''Q2'', ''AB1234567'']" "\<lambda>t. None"]
      scrapped_coil_is_frozen [OF sc, of ?s "''dave''" "''buyer''" "''bob''" "''private''"
        "''Q2''" "''update_qual''" "[''Q2'', ''AB1234567'']" "\<lambda>t. None"]
    by simp
qed

section \<open>Listing the coils\<close>

lemma get_coil_details_visible:
  "get_coil_details stub v caller caller_affiliation
     = (if Owner v = caller \<or> caller_affiliation = AUTHORITY then (Some (CoilJSON v), None)
        else (None, Some Permission_Denied))"
  by (simp add: get_coil_details_def json_Marshal_Coil_def)

lemma get_coils_loop_filter:
  "map (retrieve_v5c stub) ids = map Inr vs \<Longrightarrow>
   get_coils_loop stub caller caller_affiliation ids result
     = Inr (result @ map CoilJSON
              (filter (\<lambda>v. Owner v = caller \<or> caller_affiliation = AUTHORITY) vs))"
proof (induction ids arbitrary: vs result)
  case Nil
  then show ?case by simp
next
  case (Cons v5c ids)
  then obtain v vs' where vs: "vs = v # vs'" "retrieve_v5c stub v5c = Inr v"
    "map (retrieve_v5c stub) ids = map Inr vs'"
    by (cases vs) auto
  show ?case
    using Cons.IH [OF vs(3)] vs(1,2) by (simp add: get_coil_details_visible)
qed

lemma get_coils_loop_unreadable:
  "retrieve_v5c stub v5c = Inl e \<Longrightarrow> v5c \<in> set ids \<Longrightarrow>
   get_coils_loop stub caller caller_affiliation ids result = Inl Failed_to_retrieve_V5C"
  by (induction ids arbitrary: result) (auto split: sum.splits prod.splits option.splits)

lemma get_coils_all_retrieved:
  assumes "\<not> GetState_fails stub ''v5cIDs''"
    and "json_Unmarshal_Holder (world stub ''v5cIDs'') = Some v5cIDs"
    and "map (retrieve_v5c stub) (V5Cs v5cIDs) = map Inr vs"
  shows "get_coils stub caller caller_affiliation
           = (Some (ListJSON (map json_Marshal_Coil
                (filter (\<lambda>v. Owner v = caller \<or> caller_affiliation = AUTHORITY) vs))), None)"
proof -
  have m: "json_Marshal_Coil = CoilJSON" by (rule ext) (simp add: json_Marshal_Coil_def)
  show ?thesis
    using assms(1,2) get_coils_loop_filter [OF assms(3), of caller caller_affiliation "[]"]
    by (simp add: get_coils_def GetState_def m)
qed

lemma get_coils_one_unretrieved:
  assumes "\<not> GetState_fails stub ''v5cIDs''"
    and "json_Unmarshal_Holder (world stub ''v5cIDs'') = Some v5cIDs"
    and "v5c \<in> set (V5Cs v5cIDs)" and "retrieve_v5c stub v5c = Inl e"
  shows "get_coils stub caller caller_affiliation = (None, Some Failed_to_retrieve_V5C)"
  using assms(1,2) get_coils_loop_unreadable [OF assms(4,3), of caller caller_affiliation "[]"]
  by (simp add: get_coils_def GetState_def)

text \<open>Every id of a list retrieves a coil, or one of them does not.\<close>

lemma retrieve_all_or_one_fails:
  "(\<exists>vs. map (retrieve_v5c stub) ids = map Inr vs)
   \<or> (\<exists>v5c e. v5c \<in> set ids \<and> retrieve_v5c stub v5c = Inl e)"
proof (induction ids)
  case Nil
  then show ?case by simp
next
  case (Cons a ids)
  show ?case
  proof (cases "retrieve_v5c stub a")
    case (Inl e)
    then show ?thesis by auto
  next
    case (Inr v)
    from Cons show ?thesis
    proof
      assume "\<exists>vs. map (retrieve_v5c stub) ids = map Inr vs"
      then obtain vs where "map (retrieve_v5c stub) ids = map Inr vs" ..
      with Inr have "map (retrieve_v5c stub) (a # ids) = map Inr (v # vs)" by simp
      then show ?thesis by blast
    next
      assume "\<exists>v5c e. v5c \<in> set ids \<and> retrieve_v5c stub v5c = Inl e"
      then show ?thesis by auto
    qed
  qed
qed

text \<open>
  C9, as the code has it. With a readable index, \<open>get_coils\<close> ends in one of two ways.
  When every id of the index retrieves a coil, it returns, with no error, the list of
  exactly those coils whose owner is the caller or for which the caller's role is the
  authority's, in the order of the index; the others are left out without an error.
  When one id of the index does not retrieve a coil (nothing stored under it, a record
  that does not deserialize, a failing read), the whole call fails with "Failed to
  retrieve V5C" and returns no coil, whatever the caller may see. The test for a coil
  is the one of \<open>get_coil_details\<close>, which returns the record under that condition and a
  permission error otherwise.
\<close>

theorem get_coils_result:
  assumes "\<not> GetState_fails stub ''v5cIDs''"
    and "json_Unmarshal_Holder (world stub ''v5cIDs'') = Some v5cIDs"
  shows "(map (retrieve_v5c stub) (V5Cs v5cIDs) = map Inr vs
           \<longrightarrow> get_coils stub caller caller_affiliation
                 = (Some (ListJSON (map json_Marshal_Coil
                      (filter (\<lambda>v. Owner v = caller \<or> caller_affiliation = AUTHORITY) vs))), None))
       \<and> (v5c \<in> set (V5Cs v5cIDs) \<and> retrieve_v5c stub v5c = Inl e
           \<longrightarrow> get_coils stub caller caller_affiliation = (None, Some Failed_to_retrieve_V5C))
       \<and> ((\<exists>vs'. map (retrieve_v5c stub) (V5Cs v5cIDs) = map Inr vs')
            \<or> (\<exists>v5c' e'. v5c' \<in> set (V5Cs v5cIDs) \<and> retrieve_v5c stub v5c' = Inl e'))
       \<and> (\<forall>v. (get_coil_details stub v caller caller_affiliation = (Some (json_Marshal_Coil v), None))
                = (Owner v = caller \<or> caller_affiliation = AUTHORITY))
       \<and> (\<forall>v. (get_coil_details stub v caller caller_affiliation = (None, Some Permission_Denied))
                = (\<not> (Owner v = caller \<or> caller_affiliation = AUTHORITY)))"
proof (intro conjI impI)
  assume "map (retrieve_v5c stub) (V5Cs v5cIDs) = map Inr vs"
  from get_coils_all_retrieved [OF assms this]
  show "get_coils stub caller caller_affiliation
          = (Some (ListJSON (map json_Marshal_Coil
               (filter (\<lambda>v. Owner v = caller \<or> caller_affiliation = AUTHORITY) vs))), None)" .
next
  assume "v5c \<in> set (V5Cs v5cIDs) \<and> retrieve_v5c stub v5c = Inl e"
  then show "get_coils stub caller caller_affiliation = (None, Some Failed_to_retrieve_V5C)"
    using get_coils_one_unretrieved [OF assms] by blast
next
  show "(\<exists>vs'. map (retrieve_v5c stub) (V5Cs v5cIDs) = map Inr vs')
        \<or> (\<exists>v5c' e'. v5c' \<in> set (V5Cs v5cIDs) \<and> retrieve_v5c stub v5c' = Inl e')"
    by (rule retrieve_all_or_one_fails)
next
  show "\<forall>v. (get_coil_details stub v caller caller_affiliation = (Some (json_Marshal_Coil v), None))
             = (Owner v = caller \<or> caller_affiliation = AUTHORITY)"
    by (simp add: get_coil_details_visible json_Marshal_Coil_def)
next
  show "\<forall>v. (get_coil_details stub v caller caller_affiliation = (None, Some Permission_Denied))
             = (\<not> (Owner v = caller \<or> caller_affiliation = AUTHORITY))"
    by (simp add: get_coil_details_visible)
qed

theorem get_coils_result_witness:
  "get_coils (ex_stub ex_index_world ''alice'' ''carrier'') ''alice'' ''carrier''
     = (Some (ListJSON [CoilJSON (coil_of ''AA0000001'' ''alice''),
                        CoilJSON (coil_of ''AA0000003'' ''alice'')]), None)
   \<and> get_coils (ex_stub ex_index_world ''carol'' ''buyer'') ''carol'' ''buyer''
     = (Some (ListJSON [CoilJSON (coil_of ''AA0000001'' ''alice''),
                        CoilJSON (coil_of ''AA0000002'' ''bob''),
                        CoilJSON (coil_of ''AA0000003'' ''alice'')]), None)
   \<and> ''ZZ9999999'' \<in> set [''AA0000001'', ''ZZ9999999'']
   \<and> retrieve_v5c (ex_stub ex_dangling_world ''carol'' ''buyer'') ''ZZ9999999''
       = Inl RETRIEVE_V5C_Corrupt_coil_record
   \<and> get_coils (ex_stub ex_dangling_world ''carol'' ''buyer'') ''carol'' ''buyer''
       = (None, Some Failed_to_retrieve_V5C)"
proof -
  let ?vs = "[coil_of ''AA0000001'' ''alice'', coil_of ''AA0000002'' ''bob'',
              coil_of ''AA0000003'' ''alice'']"
  let ?h = "\<lparr>V5Cs = [''AA0000001'', ''AA0000002'', ''AA0000003'']\<rparr>"
  let ?d = "\<lparr>V5Cs = [''AA0000001'', ''ZZ9999999'']\<rparr>"
  have a: "\<not> GetState_fails (ex_stub w u r) ''v5cIDs''" for w u r
    by (simp add: ex_stub_def)
  have b: "json_Unmarshal_Holder (world (ex_stub ex_index_world u r) ''v5cIDs'') = Some ?h" for u r
    by (simp add: ex_stub_def ex_index_world_def)
  have c: "map (retrieve_v5c (ex_stub ex_index_world u r)) (V5Cs ?h) = map Inr ?vs" for u r
    by (simp add: ex_stub_def ex_index_world_def retrieve_v5c_def GetState_def)
  have d: "json_Unmarshal_Holder (world (ex_stub ex_dangling_world u r) ''v5cIDs'') = Some ?d" for u r
    by (simp add: ex_stub_def ex_dangling_world_def)
  have e: "retrieve_v5c (ex_stub ex_dangling_world ''carol'' ''buyer'') ''ZZ9999999''
             = Inl RETRIEVE_V5C_Corrupt_coil_record"
    by (simp add: ex_stub_def ex_dangling_world_def retrieve_v5c_def GetState_def)
  have m: "''ZZ9999999'' \<in> set (V5Cs ?d)" by simp
  show ?thesis
    using get_coils_result [OF a b, of "''alice''" "''carrier''" ?vs "''alice''" "''carrier''"]
      get_coils_result [OF a b, of "''carol''" "''buyer''" ?vs "''carol''" "''buyer''"]
      get_coils_result [OF a d, of "''carol''" "''buyer''" "[]" "''carol''" "''buyer''"
        "''ZZ9999999''" RETRIEVE_V5C_Corrupt_coil_record]
      c e m
    by (simp add: json_Marshal_Coil_def coil_of_def AUTHORITY_def)
qed

text \<open>
  C9 as stated fails: the index names \<open>AA0000001\<close>, a coil of \<open>alice\<close>, and then
  \<open>ZZ9999999\<close>, under which nothing is stored. \<open>get_coils\<close> called by \<open>alice\<close> does not
  return her coil: it fails with "Failed to retrieve V5C".
\<close>

theorem get_coils_dangling_id_counterexample:
  "world (ex_stub ex_dangling_world ''alice'' ''carrier'') ''v5cIDs''
     = Some (HolderJSON \<lparr>V5Cs = [''AA0000001'', ''ZZ9999999'']\<rparr>)
   \<and> world (ex_stub ex_dangling_world ''alice'' ''carrier'') ''AA0000001''
     = Some (CoilJSON (coil_of ''AA0000001'' ''alice''))
   \<and> world (ex_stub ex_dangling_world ''alice'' ''carrier'') ''ZZ9999999'' = None
   \<and> get_coils (ex_stub ex_dangling_world ''alice'' ''carrier'') ''alice'' ''carrier''
     = (None, Some Failed_to_retrieve_V5C)"
  by (simp add: get_coils_def GetState_def retrieve_v5c_def get_coil_details_def
      json_Marshal_Coil_def ex_stub_def ex_dangling_world_def coil_of_def AUTHORITY_def)

text \<open>
  Such an index comes out of \<open>create_coil\<close> itself, with no failure of the ledger. The
  id of two backslashes and seven digits matches the pattern. When the decoder reads
  the escape sequence in the text as one backslash, the record is stored under the
  decoded id and the raw id is appended to the index; \<open>get_coils\<close> then finds nothing
  under the id the index names.
\<close>

lemma create_coil_escaped_id_breaks_get_coils:
  assumes "J (coil_json ex_escaped_id ''carol'') = Some (coil_of ex_decoded_id ''carol'')"
  shows "fst (create_coil J (ex_stub [''v5cIDs'' \<mapsto> HolderJSON \<lparr>V5Cs = []\<rparr>] ''carol'' ''buyer'')
                ''carol'' ''buyer'' ex_escaped_id) = (None, None)
       \<and> world (snd (create_coil J (ex_stub [''v5cIDs'' \<mapsto> HolderJSON \<lparr>V5Cs = []\<rparr>] ''carol'' ''buyer'')
                ''carol'' ''buyer'' ex_escaped_id)) ''v5cIDs''
           = Some (HolderJSON \<lparr>V5Cs = [ex_escaped_id]\<rparr>)
       \<and> world (snd (create_coil J (ex_stub [''v5cIDs'' \<mapsto> HolderJSON \<lparr>V5Cs = []\<rparr>] ''carol'' ''buyer'')
                ''carol'' ''buyer'' ex_escaped_id)) ex_decoded_id
           = Some (CoilJSON (coil_of ex_decoded_id ''carol''))
       \<and> world (snd (create_coil J (ex_stub [''v5cIDs'' \<mapsto> HolderJSON \<lparr>V5Cs = []\<rparr>] ''carol'' ''buyer'')
                ''carol'' ''buyer'' ex_escaped_id)) ex_escaped_id
           = None
       \<and> get_coils (snd (create_coil J (ex_stub [''v5cIDs'' \<mapsto> HolderJSON \<lparr>V5Cs = []\<rparr>] ''carol'' ''buyer'')
                ''carol'' ''buyer'' ex_escaped_id)) ''carol'' ''buyer''
           = (None, Some Failed_to_retrieve_V5C)"
proof -
  let ?s = "ex_stub [''v5cIDs'' \<mapsto> HolderJSON \<lparr>V5Cs = []\<rparr>] ''carol'' ''buyer''"
  let ?s' = "?s\<lparr>world := (world ?s)(ex_decoded_id \<mapsto> CoilJSON (coil_of ex_decoded_id ''carol''),
                ''v5cIDs'' \<mapsto> HolderJSON \<lparr>V5Cs = [ex_escaped_id]\<rparr>)\<rparr>"
  have u: "json_Unmarshal_coil_json J ex_escaped_id ''carol'' = Some (coil_of ex_decoded_id ''carol'')"
    using assms by (simp add: json_Unmarshal_coil_json_def json_plain_def ex_escaped_id_def)
  have ne: "ex_decoded_id \<noteq> ''v5cIDs''" "ex_escaped_id \<noteq> ex_decoded_id"
    "ex_escaped_id \<noteq> ''v5cIDs''"
    by (simp_all add: ex_decoded_id_def ex_escaped_id_def)
  have rm: "regexp_Match ex_escaped_id"
    by (simp add: regexp_Match_def ex_escaped_id_def in_A_z_def in_0_9_def)
  have vk: "V5cID (coil_of ex_decoded_id ''carol'') = ex_decoded_id"
    by (simp add: coil_of_def)
  have w: "world ?s = [''v5cIDs'' \<mapsto> HolderJSON \<lparr>V5Cs = []\<rparr>]"
    "GetState_fails ?s = (\<lambda>k. False)" "PutState_fails ?s = (\<lambda>k. False)"
    by (simp_all add: ex_stub_def)
  have c: "create_coil J ?s ''carol'' ''buyer'' ex_escaped_id = ((None, None), ?s')"
    using ne rm
    by (simp add: create_coil_def u vk w quoted_def GetState_def PutState_def save_changes_def
        json_Marshal_Coil_def json_Marshal_Holder_def AUTHORITY_def)
  have g: "get_coils ?s' ''carol'' ''buyer'' = (None, Some Failed_to_retrieve_V5C)"
    using ne by (simp add: get_coils_def GetState_def retrieve_v5c_def w)
  show ?thesis
    unfolding c using g ne by (simp add: w)
qed

section \<open>Creating a coil\<close>

text \<open>
  C2, as the code has it. A call of \<open>create_coil\<close> ends in one of three ways. It fails
  on the id, on the JSON text, on an existing record, on the caller's role or on the
  write of the coil record, and the ledger is as it was. Or it succeeds, and the
  ledger holds the new coil record and the index with the id appended. Or the coil
  record has been written and the step on the index fails (the index cannot be read,
  does not deserialize, or its write is refused): the call returns an error, the
  coil record stays written and the index is unchanged. The function undoes nothing.
\<close>

theorem create_coil_writes:
  "(snd (fst (create_coil J stub caller caller_affiliation v5cID))
        \<in> Some ` {Invalid_v5cID_provided, Invalid_JSON_object, Coil_already_exists, Permission_Denied,
                   Error_saving_changes}
      \<and> snd (create_coil J stub caller caller_affiliation v5cID) = stub)
   \<or> (\<exists>v h. json_Unmarshal_coil_json J v5cID caller = Some v
         \<and> json_Unmarshal_Holder (((world stub)(V5cID v \<mapsto> CoilJSON v)) ''v5cIDs'') = Some h
         \<and> fst (create_coil J stub caller caller_affiliation v5cID) = (None, None)
         \<and> world (snd (create_coil J stub caller caller_affiliation v5cID))
             = (world stub)(V5cID v \<mapsto> CoilJSON v,
                  ''v5cIDs'' \<mapsto> HolderJSON (h\<lparr>V5Cs := V5Cs h @ [v5cID]\<rparr>)))
   \<or> (\<exists>v. json_Unmarshal_coil_json J v5cID caller = Some v
         \<and> snd (fst (create_coil J stub caller caller_affiliation v5cID))
              \<in> Some ` {Unable_to_get_v5cIDs, Corrupt_V5C_Holder_record, Unable_to_put_the_state}
         \<and> world (snd (create_coil J stub caller caller_affiliation v5cID))
             = (world stub)(V5cID v \<mapsto> CoilJSON v))"
proof (cases "regexp_Match v5cID")
  case False
  then show ?thesis by (simp add: create_coil_def)
next
  case m: True
  show ?thesis
  proof (cases "json_Unmarshal_coil_json J v5cID caller")
    case None
    with m show ?thesis by (simp add: create_coil_def quoted_def)
  next
    case (Some v)
    show ?thesis
    proof (cases "fst (GetState stub (V5cID v)) \<noteq> None \<or> caller_affiliation \<noteq> AUTHORITY
                  \<or> PutState_fails stub (V5cID v)")
      case True
      with m Some show ?thesis
        by (auto simp: create_coil_def quoted_def save_changes_def PutState_def split: prod.splits)
    next
      case False
      define stub1 where "stub1 = stub\<lparr>world := (world stub)(V5cID v \<mapsto> CoilJSON v)\<rparr>"
      from False have sv: "save_changes stub v = ((True, None), stub1)"
        by (simp add: save_changes_def PutState_def json_Marshal_Coil_def stub1_def)
      have w1: "world stub1 = (world stub)(V5cID v \<mapsto> CoilJSON v)" by (simp add: stub1_def)
      have c: "create_coil J stub caller caller_affiliation v5cID =
            (case GetState stub1 ''v5cIDs'' of
               (bytes, Some e) \<Rightarrow> ((None, Some Unable_to_get_v5cIDs), stub1)
             | (bytes, None) \<Rightarrow>
                 (case json_Unmarshal_Holder bytes of
                    None \<Rightarrow> ((None, Some Corrupt_V5C_Holder_record), stub1)
                  | Some v5cIDs \<Rightarrow>
                      (case PutState stub1 ''v5cIDs''
                              (HolderJSON (v5cIDs\<lparr>V5Cs := V5Cs v5cIDs @ [v5cID]\<rparr>)) of
                         (Some e, stub2) \<Rightarrow> ((None, Some Unable_to_put_the_state), stub2)
                       | (None, stub2) \<Rightarrow> ((None, None), stub2))))"
      proof -
        obtain err where g: "GetState stub (V5cID v) = (None, err)"
          using False by (cases "GetState stub (V5cID v)") simp
        show ?thesis
          using m Some False sv g
          by (simp add: create_coil_def quoted_def json_Marshal_Holder_def Let_def
              split: prod.splits option.splits)
      qed
      show ?thesis
        unfolding c using Some w1
        by (auto simp: GetState_def PutState_def split: option.splits)
    qed
  qed
qed

text \<open>
  C2 as stated fails: the ledger holds an empty index and refuses the write of the
  index. \<open>create_coil\<close> returns "Unable to put the state"; the coil record
  \<open>AB1234567\<close>, absent before, is stored, and the index is still empty.
\<close>

theorem create_coil_not_atomic_counterexample:
  "world ex_stub_index_refused ''AB1234567'' = None
   \<and> fst (create_coil (\<lambda>t. None) ex_stub_index_refused ''carol'' ''buyer'' ''AB1234567'')
       = (None, Some Unable_to_put_the_state)
   \<and> world (snd (create_coil (\<lambda>t. None) ex_stub_index_refused ''carol'' ''buyer'' ''AB1234567''))
        ''AB1234567''
       = Some (CoilJSON (coil_of ''AB1234567'' ''carol''))
   \<and> world (snd (create_coil (\<lambda>t. None) ex_stub_index_refused ''carol'' ''buyer'' ''AB1234567''))
        ''v5cIDs''
       = Some (HolderJSON \<lparr>V5Cs = []\<rparr>)"
  by (simp add: create_coil_def quoted_def regexp_Match_def in_A_z_def in_0_9_def
      json_Unmarshal_coil_json_def json_plain_def GetState_def PutState_def save_changes_def
      json_Marshal_Coil_def json_Marshal_Holder_def ex_stub_index_refused_def coil_of_def
      AUTHORITY_def)

subsection \<open>The id format\<close>

lemma regexp_Match_accepts_format:
  "two_letters_seven_digits s \<Longrightarrow> regexp_Match s"
  by (auto simp: two_letters_seven_digits_def regexp_Match_def is_letter_def in_A_z_def
      split: list.splits)

lemma create_coil_digits_first_rejected:
  "create_coil J stub caller caller_affiliation ''1234567AB''
     = ((None, Some Invalid_v5cID_provided), stub)"
  by (simp add: create_coil_def regexp_Match_def in_A_z_def)

text \<open>
  C8 fails on the code. The id \<open>__1234567\<close> does not consist of two letters followed by
  seven digits, yet the pattern matches it (the class \<open>[A-z]\<close> holds the six characters
  between \<open>Z\<close> and \<open>a\<close>, the underscore among them), and \<open>create_coil\<close>, called by an
  authority on a ledger with an empty index, succeeds: it stores the coil under that id
  and appends the id to the index.
\<close>

theorem create_coil_accepts_non_letters:
  "\<not> two_letters_seven_digits ''__1234567''
   \<and> regexp_Match ''__1234567''
   \<and> fst (create_coil J (ex_stub [''v5cIDs'' \<mapsto> HolderJSON \<lparr>V5Cs = []\<rparr>] ''carol'' ''buyer'')
            ''carol'' ''buyer'' ''__1234567'') = (None, None)
   \<and> world (snd (create_coil J (ex_stub [''v5cIDs'' \<mapsto> HolderJSON \<lparr>V5Cs = []\<rparr>] ''carol'' ''buyer'')
            ''carol'' ''buyer'' ''__1234567''))
       = [''v5cIDs'' \<mapsto> HolderJSON \<lparr>V5Cs = [''__1234567'']\<rparr>,
          ''__1234567'' \<mapsto> CoilJSON (coil_of ''__1234567'' ''carol'')]"
  by (auto simp: create_coil_def quoted_def regexp_Match_def in_A_z_def in_0_9_def
      json_Unmarshal_coil_json_def json_plain_def GetState_def PutState_def save_changes_def
      json_Marshal_Coil_def json_Marshal_Holder_def ex_stub_def coil_of_def AUTHORITY_def
      two_letters_seven_digits_def is_letter_def)

section \<open>Transfers through Invoke\<close>

text \<open>
  Called with the role constant for the recipient, \<open>manufacturer_to_private\<close> hands the
  fully manufactured coil of \<open>alice\<close> over to \<open>bob\<close> and moves it to private ownership.
\<close>

lemma manufacturer_to_private_with_PRIVATE_ENTITY:
  "manufacturer_to_private (ex_stub [''AB1234567'' \<mapsto> CoilJSON ex_coil] ''alice'' ''manufacturer'')
       ex_coil ''alice'' MANUFACTURER ''bob'' PRIVATE_ENTITY
     = ((None, None),
        ex_stub [''AB1234567'' \<mapsto> CoilJSON (ex_coil\<lparr>Owner := ''bob'', Status := STATE_PRIVATE_OWNERSHIP\<rparr>)]
          ''alice'' ''manufacturer'')"
  by (simp add: manufacturer_to_private_def write_new_state_def save_changes_def PutState_def
      json_Marshal_Coil_def ex_stub_def ex_coil_def const_defs)

text \<open>
  \<open>Invoke\<close> passes the literals \<open>private\<close> and \<open>lease_company\<close> as the recipient's
  affiliation, and the functions compare them with \<open>PRIVATE_ENTITY\<close> (\<open>carrier\<close>) and
  \<open>LEASE_COMPANY\<close> (\<open>bank\<close>): these four transfers never succeed through \<open>Invoke\<close>,
  whatever the ledger, the caller and the arguments are.
\<close>

lemma Invoke_private_transfers_never_succeed:
  assumes "function \<in> set [''manufacturer_to_private'', ''private_to_private'',
             ''private_to_lease_company'', ''lease_company_to_private'']"
  shows "snd (fst (Invoke J stub function args)) \<noteq> None \<and> snd (Invoke J stub function args) = stub"
proof (cases "get_caller_data stub")
  case (Inl e)
  then show ?thesis by (simp add: Invoke_no_caller)
next
  case (Inr p)
  obtain c a where p: "get_caller_data stub = Inr (c, a)" using Inr by (cases p) simp
  have f: "function = ''manufacturer_to_private'' \<or> function = ''private_to_private''
      \<or> function = ''private_to_lease_company'' \<or> function = ''lease_company_to_private''"
    using assms by (simp only: list.set insert_iff empty_iff simp_thms)
  show ?thesis
  proof (cases "1 < length args")
    case False
    with f p show ?thesis
      by (elim disjE) (simp_all add: Invoke_def)
  next
    case len: True
    show ?thesis
    proof (cases "retrieve_v5c stub (args ! 1)")
      case (Inl e)
      with f p len show ?thesis
        by (elim disjE) (simp_all add: Invoke_def)
    next
      case (Inr v)
      note tr = Invoke_transfer [OF p len Inr]
      from f show ?thesis
        by (elim disjE)
          (simp_all add: tr manufacturer_to_private_def private_to_private_def
            private_to_lease_company_def lease_company_to_private_def const_defs)
    qed
  qed
qed

text \<open>
  The two other transfers do succeed through \<open>Invoke\<close>: their literals are the values
  of \<open>MANUFACTURER\<close> and \<open>SCRAP_MERCHANT\<close>.
\<close>

lemma Invoke_authority_to_manufacturer_succeeds:
  "Invoke J (ex_stub [''AB1234567'' \<mapsto> CoilJSON (coil_of ''AB1234567'' ''carol'')] ''carol'' ''buyer'')
       ''authority_to_manufacturer'' [''alice'', ''AB1234567'']
     = ((None, None),
        ex_stub [''AB1234567'' \<mapsto> CoilJSON ((coil_of ''AB1234567'' ''carol'')
                   \<lparr>Owner := ''alice'', Status := STATE_MANUFACTURE\<rparr>)] ''carol'' ''buyer'')"
  by (simp add: Invoke_def get_caller_data_def get_username_def check_affiliation_def
      ReadCertAttribute_def retrieve_v5c_def GetState_def authority_to_manufacturer_def write_new_state_def save_changes_def PutState_def
      json_Marshal_Coil_def ex_stub_def coil_of_def const_defs)

text \<open>
  C1 fails on the code. The coil \<open>AB1234567\<close> is in the state of manufacture, fully
  manufactured, not scrapped and owned by \<open>alice\<close>, who calls with the role
  \<open>manufacturer\<close>: every condition of the row of \<open>manufacturer_to_private\<close> holds. Through
  \<open>Invoke\<close> the transfer to \<open>bob\<close> is refused with a permission error and the ledger is
  unchanged.
\<close>

theorem Invoke_manufacturer_to_private_denied:
  "Status ex_coil = STATE_MANUFACTURE \<and> Owner ex_coil = ''alice'' \<and> Scrapped ex_coil = False
   \<and> Prod ex_coil \<noteq> ''UNDEFINED'' \<and> Grade ex_coil \<noteq> ''UNDEFINED'' \<and> Qual ex_coil \<noteq> ''UNDEFINED''
   \<and> Wgt ex_coil \<noteq> ''UNDEFINED'' \<and> CoilID ex_coil \<noteq> 0
   \<and> get_caller_data (ex_stub [''AB1234567'' \<mapsto> CoilJSON ex_coil] ''alice'' ''manufacturer'')
       = Inr (''alice'', MANUFACTURER)
   \<and> Invoke J (ex_stub [''AB1234567'' \<mapsto> CoilJSON ex_coil] ''alice'' ''manufacturer'')
        ''manufacturer_to_private'' [''bob'', ''AB1234567'']
       = ((None, Some Permission_Denied),
          ex_stub [''AB1234567'' \<mapsto> CoilJSON ex_coil] ''alice'' ''manufacturer'')"
  by (simp add: Invoke_def get_caller_data_def get_username_def check_affiliation_def
      ReadCertAttribute_def retrieve_v5c_def GetState_def manufacturer_to_private_def
      ex_stub_def ex_coil_def const_defs)

end
